theory Spec2Isabelle
  imports Main "HOL-Library.Sublist"
begin

section \<open>Strings\<close>

text \<open>
  A JavaScript string is the sequence of its UTF-16 code units, so a string of the program
  is a list of code units, each a natural number below 65536. A literal of the source made
  of ASCII characters only is written \<open>asc ''...''\<close>; the other literals (the Spanish,
  Japanese and Chinese entries of the offline dictionary) are written as their code units.
\<close>

type_synonym jsstring = "nat list"

definition asc :: "string \<Rightarrow> jsstring" where
  "asc s = map of_char s"

text \<open>
  \<open>String.prototype.includes\<close>: \<open>js_includes s k\<close> is \<open>s.includes(k)\<close>, true when \<open>k\<close>
  occurs in \<open>s\<close> as a contiguous run of code units.
\<close>

fun js_includes :: "jsstring \<Rightarrow> jsstring \<Rightarrow> bool" where
  "js_includes [] k = (k = [])"
| "js_includes (c # cs) k = (if prefix k (c # cs) then True else js_includes cs k)"

text \<open>
  \<open>String.prototype.toLowerCase\<close> follows the Unicode case tables, which are not part of
  the program. On a string of ASCII code units it maps \<open>A\<close>..\<open>Z\<close> to \<open>a\<close>..\<open>z\<close> and
  leaves the rest alone, and that is written out; what it returns on a string holding a code
  unit above 127 is the parameter \<open>uni\<close>, so every statement below holds whatever the
  Unicode tables say.
\<close>

definition ascii_lower :: "nat \<Rightarrow> nat" where
  "ascii_lower c = (if 65 \<le> c \<and> c \<le> 90 then c + 32 else c)"

definition toLowerCase :: "(jsstring \<Rightarrow> jsstring) \<Rightarrow> jsstring \<Rightarrow> jsstring" where
  "toLowerCase uni s = (if list_all (\<lambda>c. c < 128) s then map ascii_lower s else uni s)"

text \<open>
  \<open>String.prototype.trim\<close> removes the white space and line terminators of ECMAScript
  from both ends: TAB, LF, VT, FF, CR, SP, NBSP, U+1680, U+2000..U+200A, U+2028, U+2029,
  U+202F, U+205F, U+3000 and U+FEFF.
\<close>

definition is_space :: "nat \<Rightarrow> bool" where
  "is_space c = (c \<in> set [9, 10, 11, 12, 13, 32, 160, 5760, 8232, 8233, 8239, 8287, 12288, 65279]
                 \<or> (8192 \<le> c \<and> c \<le> 8202))"

definition trim :: "jsstring \<Rightarrow> jsstring" where
  "trim s = rev (dropWhile is_space (rev (dropWhile is_space s)))"

text \<open>\<open>.replace(/[?.!]/g, "")\<close> deletes every \<open>?\<close> (63), \<open>.\<close> (46) and \<open>!\<close> (33).\<close>

definition strip_punct :: "jsstring \<Rightarrow> jsstring" where
  "strip_punct s = filter (\<lambda>c. c \<noteq> 63 \<and> c \<noteq> 46 \<and> c \<noteq> 33) s"

section \<open>Types of the application\<close>

datatype SupportedLanguageCode = L_en | L_id | L_zh | L_es | L_ko | L_ja | L_nl | L_ar

text \<open>A language code is a string at run time; \<open>code_str\<close> is that string.\<close>

fun code_str :: "SupportedLanguageCode \<Rightarrow> jsstring" where
  "code_str L_en = asc ''en''"
| "code_str L_id = asc ''id''"
| "code_str L_zh = asc ''zh''"
| "code_str L_es = asc ''es''"
| "code_str L_ko = asc ''ko''"
| "code_str L_ja = asc ''ja''"
| "code_str L_nl = asc ''nl''"
| "code_str L_ar = asc ''ar''"

record TranslationResult =
  original_text :: jsstring
  detected_language :: jsstring
  translated_text :: jsstring
  phonetic :: "jsstring option"

text \<open>A thrown value, read by the program only through \<open>error?.message || ""\<close>.\<close>

datatype js_error = Error (message: jsstring)

section \<open>The offline dictionary and its resolver (geminiService.ts)\<close>

text \<open>
  \<open>OFFLINE_DICTIONARY\<close>, in the order of the object literal, which is the order
  \<open>Object.keys\<close> lists its keys in.
\<close>

definition OFFLINE_DICTIONARY :: "(jsstring \<times> (SupportedLanguageCode \<times> jsstring) list) list" where
  "OFFLINE_DICTIONARY =
   [(asc ''hello'',
       [(L_id, asc ''halo''), (L_es, asc ''hola''),
        (L_ja, [12371, 12435, 12395, 12385, 12399]), (L_zh, [20320, 22909]),
        (L_en, asc ''hello'')]),
    (asc ''thank you'',
       [(L_id, asc ''terima kasih''), (L_es, asc ''gracias''),
        (L_ja, [12354, 12426, 12364, 12392, 12358]), (L_zh, [35874, 35874]),
        (L_en, asc ''thank you'')]),
    (asc ''where is the bathroom'',
       [(L_id, asc ''di mana kamar mandi''),
        (L_es, asc ''donde est'' @ [225] @ asc '' el ba'' @ [241] @ asc ''o''),
        (L_ja, [12488, 12452, 12524, 12399, 12393, 12371, 12391, 12377, 12363]),
        (L_zh, [27927, 25163, 38388, 22312, 21738, 37324]),
        (L_en, asc ''where is the bathroom'')]),
    (asc ''help me'',
       [(L_id, asc ''tolong saya''), (L_es, asc ''ay'' @ [250] @ asc ''dame''),
        (L_ja, [21161, 12369, 12390]), (L_zh, [24110, 24110, 25105]),
        (L_en, asc ''help me'')]),
    (asc ''good morning'',
       [(L_id, asc ''selamat pagi''), (L_es, asc ''buenos d'' @ [237] @ asc ''as''),
        (L_ja, [12362, 12399, 12424, 12358]), (L_zh, [26089, 19978, 22909]),
        (L_en, asc ''good morning'')]),
    (asc ''how much'',
       [(L_id, asc ''berapa harganya''), (L_es, asc ''cu'' @ [225] @ asc ''nto cuesta''),
        (L_ja, [12356, 12367, 12425, 12391, 12377, 12363]), (L_zh, [22810, 23569, 38065]),
        (L_en, asc ''how much'')]),
    (asc ''i am lost'',
       [(L_id, asc ''saya tersesat''), (L_es, asc ''estoy perdido''),
        (L_ja, [36855, 12356, 12414, 12375, 12383]), (L_zh, [25105, 36855, 36335, 20102]),
        (L_en, asc ''i am lost'')]),
    (asc ''water'',
       [(L_id, asc ''air''), (L_es, asc ''agua''), (L_ja, [27700]), (L_zh, [27700]),
        (L_en, asc ''water'')]),
    (asc ''food'',
       [(L_id, asc ''makanan''), (L_es, asc ''comida''), (L_ja, [39135, 12409, 29289]),
        (L_zh, [39135, 29289]), (L_en, asc ''food'')]),
    (asc ''yes'',
       [(L_id, asc ''ya''), (L_es, asc ''s'' @ [237]), (L_ja, [12399, 12356]), (L_zh, [26159]),
        (L_en, asc ''yes'')]),
    (asc ''no'',
       [(L_id, asc ''tidak''), (L_es, asc ''no''), (L_ja, [12356, 12356, 12360]),
        (L_zh, [19981]), (L_en, asc ''no'')])]"

text \<open>
  \<open>translateOffline\<close>. The result of \<open>OFFLINE_DICTIONARY[cleanText]?.[targetLangCode]\<close>
  is \<open>None\<close> for \<open>undefined\<close>; \<open>!translation\<close> holds for \<open>undefined\<close> and for the
  empty string. \<open>OFFLINE_DICTIONARY[foundKey][targetLangCode]\<close> has no \<open>?.\<close>: on a key
  the object lacks it would raise a TypeError, which is the \<open>Inl\<close> branch. The target is
  one of the eight codes of \<open>SupportedLanguageCode\<close>; the properties the object literal
  inherits (\<open>constructor\<close>, \<open>__proto__\<close>) have no property of such a name, so a text
  equal to one of them reads as \<open>undefined\<close>, like any text that is not a key.
\<close>

definition falsy :: "jsstring option \<Rightarrow> bool" where
  "falsy v = (case v of None \<Rightarrow> True | Some t \<Rightarrow> t = [])"

definition cleanText :: "(jsstring \<Rightarrow> jsstring) \<Rightarrow> jsstring \<Rightarrow> jsstring" where
  "cleanText uni text = strip_punct (trim (toLowerCase uni text))"

definition offline_result :: "jsstring \<Rightarrow> jsstring option \<Rightarrow> TranslationResult" where
  "offline_result text translation =
     \<lparr>original_text = text,
      detected_language = asc ''en'',
      translated_text = (if falsy translation then asc ''[Offline: '' @ text @ asc '']''
                         else the translation),
      phonetic = Some []\<rparr>"

definition translateOffline ::
  "(jsstring \<Rightarrow> jsstring) \<Rightarrow> jsstring \<Rightarrow> SupportedLanguageCode \<Rightarrow> js_error + TranslationResult" where
  "translateOffline uni text targetLangCode =
     (let clean = cleanText uni text;
          translation = (case map_of OFFLINE_DICTIONARY clean of
                           None \<Rightarrow> None
                         | Some entry \<Rightarrow> map_of entry targetLangCode)
      in if falsy translation then
           (case find (\<lambda>key. js_includes clean key) (map fst OFFLINE_DICTIONARY) of
              None \<Rightarrow> Inr (offline_result text translation)
            | Some foundKey \<Rightarrow>
                (case map_of OFFLINE_DICTIONARY foundKey of
                   None \<Rightarrow> Inl (Error (asc ''TypeError''))
                 | Some entry \<Rightarrow> Inr (offline_result text (map_of entry targetLangCode))))
         else Inr (offline_result text translation))"

section \<open>Error classification (geminiService.ts)\<close>

text \<open>
  \<open>handleGenAIError\<close> always throws; its value here is what it throws: a new error for the
  first rule that matches the message, the error it was given when no rule matches.
\<close>

definition handleGenAIError :: "js_error \<Rightarrow> js_error" where
  "handleGenAIError err =
     (let msg = message err in
      if js_includes msg (asc ''SAFETY'') then
        Error (asc ''Safety Block: The content was flagged as inappropriate for translation.'')
      else if js_includes msg (asc ''429'') \<or> js_includes msg (asc ''quota'') then
        Error (asc ''Limit Reached: The translation engine is currently over capacity. Please try again in a few seconds.'')
      else if js_includes msg (asc ''RECITATION'') then
        Error (asc ''Recitation Block: The engine detected copyrighted material and cannot translate it.'')
      else err)"

section \<open>State and environment of the application (App.tsx)\<close>

record User =
  email :: jsstring
  name :: jsstring
  isPremium :: "bool option"
  downloadedLanguages :: "SupportedLanguageCode list option"

record LanguageOption =
  code :: SupportedLanguageCode
  name :: jsstring
  nativeName :: jsstring
  ttsLocale :: jsstring
  flag :: jsstring

record HistoryItem = TranslationResult +
  item_id :: jsstring
  timestamp :: nat
  targetLangName :: jsstring
  targetLangLocale :: jsstring
  targetLangFlag :: jsstring

text \<open>The value stored under \<open>gv_usage\<close> in localStorage.\<close>

record Usage =
  date :: jsstring
  count :: int

datatype TranslationMode =
  voice_to_voice | voice_to_text | text_to_text | image_to_text | offline_settings

text \<open>
  The calls a request makes, in call order: the quota check, the three cloud translations
  with their arguments, the offline resolver, and speech playback with its locale.
\<close>

datatype event =
    CheckUsageLimit
  | TranslateAudio jsstring jsstring jsstring jsstring
  | TranslateText jsstring jsstring jsstring
  | TranslateImage jsstring jsstring jsstring jsstring
  | TranslateOffline jsstring SupportedLanguageCode
  | SpeakText jsstring jsstring

text \<open>
  The component state the handlers read and write, the two localStorage entries
  (\<open>gv_usage\<close>, absent as \<open>None\<close>, and \<open>gv_history\<close>), and the trace of calls.
\<close>

record App =
  user :: "User option"
  history :: "HistoryItem list"
  mode :: TranslationMode
  motherLangCode :: SupportedLanguageCode
  targetLangCode :: SupportedLanguageCode
  isRecording :: bool
  isLoading :: bool
  translationResult :: "TranslationResult option"
  error :: "jsstring option"
  isOnline :: bool
  showPremiumModal :: bool
  gv_usage :: "Usage option"
  gv_history :: "HistoryItem list"
  trace :: "event list"

text \<open>
  What one request takes from outside the program: the day
  \<open>new Date().toISOString().split('T')[0]\<close>, \<open>Date.now()\<close>, \<open>crypto.randomUUID()\<close>,
  the table \<open>SUPPORTED_LANGUAGES\<close> of the constants module (read only through
  \<open>find(l => l.code === c)\<close>, so given as the entry found for each code), the Unicode part
  of \<open>toLowerCase\<close>, the outcome of \<open>ai.models.generateContent\<close> (a thrown error or
  \<open>response.text\<close>), \<open>JSON.parse\<close> on a response text, \<open>navigator.onLine\<close>, and what
  the \<open>try\<close> block of \<open>startRecording\<close> throws when the microphone is denied or absent
  (\<open>None\<close> when the recorder starts).
\<close>

record env =
  today :: jsstring
  now :: nat
  uuid :: jsstring
  SUPPORTED_LANGUAGES :: "SupportedLanguageCode \<Rightarrow> LanguageOption"
  lower_uni :: "jsstring \<Rightarrow> jsstring"
  generateContent :: "js_error + jsstring option"
  JSON_parse :: "jsstring \<Rightarrow> js_error + TranslationResult"
  navigator_onLine :: bool
  microphone :: "js_error option"

section \<open>The cloud translations (geminiService.ts)\<close>

text \<open>
  \<open>translateAudio\<close>, \<open>translateText\<close> and \<open>translateImage\<close> share one body: call the
  model, throw on an empty text, parse the text, and send whatever was thrown through
  \<open>handleGenAIError\<close>. Their arguments only shape the request sent to the model.
\<close>

definition generate :: "env \<Rightarrow> js_error + TranslationResult" where
  "generate e =
     (case generateContent e of
        Inl err \<Rightarrow> Inl (handleGenAIError err)
      | Inr text \<Rightarrow>
          if falsy text then
            Inl (handleGenAIError (Error (asc ''The translation engine returned an empty response.'')))
          else (case JSON_parse e (the text) of
                  Inl err \<Rightarrow> Inl (handleGenAIError err)
                | Inr result \<Rightarrow> Inr result))"

definition translateAudio ::
  "env \<Rightarrow> jsstring \<Rightarrow> jsstring \<Rightarrow> jsstring \<Rightarrow> jsstring \<Rightarrow> js_error + TranslationResult" where
  "translateAudio e base64Audio targetLanguageName motherLanguageName mimeType = generate e"

definition translateText ::
  "env \<Rightarrow> jsstring \<Rightarrow> jsstring \<Rightarrow> jsstring \<Rightarrow> js_error + TranslationResult" where
  "translateText e inputText targetLanguageName motherLanguageName = generate e"

definition translateImage ::
  "env \<Rightarrow> jsstring \<Rightarrow> jsstring \<Rightarrow> jsstring \<Rightarrow> jsstring \<Rightarrow> js_error + TranslationResult" where
  "translateImage e base64Image targetLanguageName motherLanguageName mimeType = generate e"

section \<open>The usage quota (App.tsx)\<close>

text \<open>\<open>user?.isPremium\<close> and \<open>user?.downloadedLanguages?.includes(c)\<close> as conditions.\<close>

definition user_isPremium :: "User option \<Rightarrow> bool" where
  "user_isPremium u =
     (case u of None \<Rightarrow> False
      | Some v \<Rightarrow> (case isPremium v of None \<Rightarrow> False | Some b \<Rightarrow> b))"

definition isDownloaded :: "User option \<Rightarrow> SupportedLanguageCode \<Rightarrow> bool" where
  "isDownloaded u c =
     (case u of None \<Rightarrow> False
      | Some v \<Rightarrow> (case downloadedLanguages v of None \<Rightarrow> False | Some ls \<Rightarrow> c \<in> set ls))"

definition called :: "event \<Rightarrow> App \<Rightarrow> App" where
  "called ev s = s\<lparr>trace := trace s @ [ev]\<rparr>"

definition checkUsageLimit :: "env \<Rightarrow> App \<Rightarrow> bool \<times> App" where
  "checkUsageLimit e s0 =
     (let s = called CheckUsageLimit s0 in
      if user_isPremium (user s) then (True, s)
      else
        let usage = (case gv_usage s of
                       Some u \<Rightarrow> u
                     | None \<Rightarrow> \<lparr>date = today e, count = 0\<rparr>);
            usage = (if date usage \<noteq> today e then \<lparr>date = today e, count = 0\<rparr> else usage)
        in if count usage \<ge> 3 then (False, s\<lparr>showPremiumModal := True\<rparr>)
           else (True, s))"

definition incrementUsage :: "env \<Rightarrow> App \<Rightarrow> App" where
  "incrementUsage e s =
     (if user_isPremium (user s) then s
      else
        let usage = (case gv_usage s of
                       Some u \<Rightarrow> u
                     | None \<Rightarrow> \<lparr>date = today e, count = 0\<rparr>)
        in s\<lparr>gv_usage := Some (usage\<lparr>count := count usage + 1\<rparr>)\<rparr>)"

section \<open>History and playback (App.tsx)\<close>

definition motherLang :: "env \<Rightarrow> App \<Rightarrow> LanguageOption" where
  "motherLang e s = SUPPORTED_LANGUAGES e (motherLangCode s)"

definition targetLang :: "env \<Rightarrow> App \<Rightarrow> LanguageOption" where
  "targetLang e s = SUPPORTED_LANGUAGES e (targetLangCode s)"

text \<open>
  \<open>setHistory\<close> with an updater; the effect on \<open>[history]\<close> then writes the new list to
  \<open>gv_history\<close>.
\<close>

definition setHistory :: "(HistoryItem list \<Rightarrow> HistoryItem list) \<Rightarrow> App \<Rightarrow> App" where
  "setHistory f s = (let h = f (history s) in s\<lparr>history := h, gv_history := h\<rparr>)"

definition newItem :: "env \<Rightarrow> TranslationResult \<Rightarrow> App \<Rightarrow> HistoryItem" where
  "newItem e result s =
     (let currentTarget = (if detected_language result = code_str (motherLangCode s)
                           then targetLang e s else motherLang e s)
      in \<lparr>original_text = original_text result,
          detected_language = detected_language result,
          translated_text = translated_text result,
          phonetic = phonetic result,
          item_id = uuid e,
          timestamp = now e,
          targetLangName = LanguageOption.name currentTarget,
          targetLangLocale = ttsLocale currentTarget,
          targetLangFlag = flag currentTarget\<rparr>)"

definition addToHistory :: "env \<Rightarrow> TranslationResult \<Rightarrow> App \<Rightarrow> App" where
  "addToHistory e result s = setHistory (\<lambda>prev. take 50 (newItem e result s # prev)) s"

text \<open>\<open>speakText\<close> hands the text and the locale to the browser's speech synthesis.\<close>

definition speakText :: "jsstring \<Rightarrow> jsstring \<Rightarrow> App \<Rightarrow> App" where
  "speakText text locale s = called (SpeakText text locale) s"

definition parseErrorMessage :: "env \<Rightarrow> js_error \<Rightarrow> jsstring" where
  "parseErrorMessage e err =
     (let msg = message err in
      if \<not> navigator_onLine e then
        asc ''No internet connection detected. Please reconnect to use the high-performance translation engine.''
      else if js_includes msg (asc ''Safety'') then
        asc ''The translation engine blocked the content for safety reasons. Try using more common words.''
      else if js_includes msg (asc ''Limit'') then
        asc ''Our servers are currently overwhelmed with requests. Please wait a moment and try again.''
      else if msg \<noteq> [] then msg
      else asc ''An unexpected error occurred in the translation engine. Please try again.'')"

text \<open>
  \<open>SUPPORTED_LANGUAGES.find(l => l.code === targetLangCode)?.nativeName || targetLangCode\<close>
\<close>

definition langName :: "env \<Rightarrow> App \<Rightarrow> jsstring" where
  "langName e s =
     (let n = nativeName (SUPPORTED_LANGUAGES e (targetLangCode s))
      in if n = [] then code_str (targetLangCode s) else n)"

section \<open>The three request handlers (App.tsx)\<close>

text \<open>
  \<open>processAudio\<close> runs when a recording stops. \<open>base64\<close> is what \<open>blobToBase64(blob)\<close>
  settles with (\<open>Inl\<close> when the reader fails) and \<open>blobType\<close> is \<open>blob.type\<close>. A
  \<open>catch\<close> is the \<open>Inl\<close> branch of the call it guards.
\<close>

definition processAudio :: "env \<Rightarrow> js_error + jsstring \<Rightarrow> jsstring \<Rightarrow> App \<Rightarrow> App" where
  "processAudio e base64 blobType s0 =
     (let s = s0\<lparr>isLoading := True, error := None, translationResult := None\<rparr> in
      if \<not> isOnline s then
        if \<not> user_isPremium (user s) then
          s\<lparr>error := Some (asc ''Offline translation is a Premium feature. Please connect to the internet to upgrade.''),
            isLoading := False\<rparr>
        else if \<not> isDownloaded (user s) (targetLangCode s) then
          s\<lparr>error := Some (asc ''Language pack for '' @ langName e s
                   @ asc '' not found. Please connect to the internet and go to Settings to download it for offline use.''),
            isLoading := False\<rparr>
        else
          (let s1 = called (TranslateOffline (asc ''Help me'') (targetLangCode s)) s in
           case translateOffline (lower_uni e) (asc ''Help me'') (targetLangCode s) of
             Inr result \<Rightarrow>
               (let s2 = s1\<lparr>translationResult := Some result\<rparr>;
                    s3 = addToHistory e result s2;
                    s4 = (if mode s3 = voice_to_voice
                          then speakText (translated_text result) (ttsLocale (targetLang e s3)) s3
                          else s3)
                in s4\<lparr>isLoading := False\<rparr>)
           | Inl err \<Rightarrow>
               s1\<lparr>error := Some (asc ''Local translation engine encountered an error. Try a simpler phrase or reconnect to the internet.''),
                  isLoading := False\<rparr>)
      else
        (case base64 of
           Inl err \<Rightarrow> s\<lparr>error := Some (parseErrorMessage e err), isLoading := False\<rparr>
         | Inr base64Audio \<Rightarrow>
             (let tn = LanguageOption.name (targetLang e s);
                  mn = LanguageOption.name (motherLang e s);
                  s1 = called (TranslateAudio base64Audio tn mn blobType) s in
              case translateAudio e base64Audio tn mn blobType of
                Inr result \<Rightarrow>
                  (let s2 = s1\<lparr>translationResult := Some result\<rparr>;
                       s3 = addToHistory e result s2;
                       s4 = incrementUsage e s3;
                       s5 = (if mode s4 = voice_to_voice
                             then (let ttsLang = (if detected_language result = code_str (motherLangCode s4)
                                                  then targetLang e s4 else motherLang e s4)
                                   in speakText (translated_text result) (ttsLocale ttsLang) s4)
                             else s4)
                   in s5\<lparr>isLoading := False\<rparr>)
              | Inl err \<Rightarrow>
                  s1\<lparr>error := Some (parseErrorMessage e err), isLoading := False\<rparr>)))"

definition handleTextTranslate :: "env \<Rightarrow> jsstring \<Rightarrow> App \<Rightarrow> App" where
  "handleTextTranslate e inputText s0 =
     (case checkUsageLimit e s0 of
        (False, sq) \<Rightarrow> sq
      | (True, sq) \<Rightarrow>
         (let s = sq\<lparr>isLoading := True, error := None, translationResult := None\<rparr> in
          if \<not> isOnline s then
            if \<not> user_isPremium (user s) then
              s\<lparr>error := Some (asc ''Offline text translation is a Premium feature. Please connect to the internet to upgrade.''),
                isLoading := False\<rparr>
            else if \<not> isDownloaded (user s) (targetLangCode s) then
              s\<lparr>error := Some (asc ''The '' @ langName e s
                       @ asc '' pack is not downloaded. Connect to the internet and go to Settings to download it for offline use.''),
                isLoading := False\<rparr>
            else
              (let s1 = called (TranslateOffline inputText (targetLangCode s)) s in
               case translateOffline (lower_uni e) inputText (targetLangCode s) of
                 Inr result \<Rightarrow>
                   (let s2 = s1\<lparr>translationResult := Some result\<rparr>;
                        s3 = addToHistory e result s2
                    in s3\<lparr>isLoading := False\<rparr>)
               | Inl err \<Rightarrow>
                   s1\<lparr>error := Some (asc ''Offline dictionary lookup failed. Try a simpler phrase or connect to the internet.''),
                      isLoading := False\<rparr>)
          else
            (let tn = LanguageOption.name (targetLang e s);
                 mn = LanguageOption.name (motherLang e s);
                 s1 = called (TranslateText inputText tn mn) s in
             case translateText e inputText tn mn of
               Inr result \<Rightarrow>
                 (let s2 = s1\<lparr>translationResult := Some result\<rparr>;
                      s3 = addToHistory e result s2;
                      s4 = incrementUsage e s3
                  in s4\<lparr>isLoading := False\<rparr>)
             | Inl err \<Rightarrow>
                 s1\<lparr>error := Some (parseErrorMessage e err), isLoading := False\<rparr>)))"

definition handleImageTranslate :: "env \<Rightarrow> jsstring \<Rightarrow> jsstring \<Rightarrow> App \<Rightarrow> App" where
  "handleImageTranslate e base64Image mimeType s0 =
     (if \<not> isOnline s0 then
        s0\<lparr>error := Some (asc ''Visual intelligence requires a cloud connection. Please connect to the internet to scan images.'')\<rparr>
      else
        (case checkUsageLimit e s0 of
           (False, sq) \<Rightarrow> sq
         | (True, sq) \<Rightarrow>
            (let s = sq\<lparr>isLoading := True, error := None, translationResult := None\<rparr>;
                 tn = LanguageOption.name (targetLang e s);
                 mn = LanguageOption.name (motherLang e s);
                 s1 = called (TranslateImage base64Image tn mn mimeType) s in
             case translateImage e base64Image tn mn mimeType of
               Inr result \<Rightarrow>
                 (let s2 = s1\<lparr>translationResult := Some result\<rparr>;
                      s3 = addToHistory e result s2;
                      s4 = incrementUsage e s3
                  in s4\<lparr>isLoading := False\<rparr>)
             | Inl err \<Rightarrow>
                 s1\<lparr>error := Some (parseErrorMessage e err), isLoading := False\<rparr>)))"

section \<open>Recording (App.tsx)\<close>

text \<open>
  \<open>startRecording\<close> begins a voice turn: the quota check, then the microphone and the
  recorder, whose \<open>onstop\<close> handler is the only caller of \<open>processAudio\<close>.
  \<open>stopRecording\<close> stops a recorder that is recording, which \<open>isRecording\<close> tells
  (set right after \<open>mediaRecorder.start()\<close>); the stop event then hands the recorded blob to
  \<open>processAudio\<close>.
\<close>

definition startRecording :: "env \<Rightarrow> App \<Rightarrow> App" where
  "startRecording e s0 =
     (case checkUsageLimit e s0 of
        (False, sq) \<Rightarrow> sq
      | (True, sq) \<Rightarrow>
         (let s = sq\<lparr>error := None\<rparr> in
          case microphone e of
            Some err \<Rightarrow> s\<lparr>error := Some (asc ''Microphone access denied or not found.'')\<rparr>
          | None \<Rightarrow> s\<lparr>isRecording := True\<rparr>))"

definition stopRecording :: "env \<Rightarrow> js_error + jsstring \<Rightarrow> jsstring \<Rightarrow> App \<Rightarrow> App" where
  "stopRecording e base64 blobType s =
     (if isRecording s then processAudio e base64 blobType (s\<lparr>isRecording := False\<rparr>)
      else s)"

section \<open>Definitions used to state the properties\<close>

text \<open>A voice turn: the recording is started and then stopped.\<close>

definition voiceTurn :: "env \<Rightarrow> js_error + jsstring \<Rightarrow> jsstring \<Rightarrow> App \<Rightarrow> App" where
  "voiceTurn e base64 blobType s = stopRecording e base64 blobType (startRecording e s)"

text \<open>
  The count the quota check works with, in the words of the specification: the stored count
  when a ledger is stored and its date is the current day, 0 otherwise.
\<close>

definition effective_count :: "jsstring \<Rightarrow> Usage option \<Rightarrow> int" where
  "effective_count day stored =
     (case stored of None \<Rightarrow> 0 | Some u \<Rightarrow> if date u = day then count u else 0)"

text \<open>The ledger after one more counted request, as \<open>incrementUsage\<close> stores it.\<close>

definition bump :: "env \<Rightarrow> Usage option \<Rightarrow> Usage option" where
  "bump e stored =
     (case stored of
        None \<Rightarrow> Some \<lparr>date = today e, count = 1\<rparr>
      | Some u \<Rightarrow> Some (u\<lparr>count := count u + 1\<rparr>))"

text \<open>A run of successful translations, each with its own environment, oldest first.\<close>

definition appendAll :: "(env \<times> TranslationResult) list \<Rightarrow> App \<Rightarrow> App" where
  "appendAll rs s = foldl (\<lambda>s' (e, r). addToHistory e r s') s rs"

text \<open>
  The reference algorithm of the offline resolver, in the words of the specification, and
  written without the functions of the code. Normalise: lowercase (each capital letter
  replaced by the small letter in the same place of the alphabet, the Unicode part left to
  \<open>uni\<close>), trim (white space removed from the front, then from the end), and remove the
  terminal punctuation marks \<open>?\<close>, \<open>.\<close> and \<open>!\<close>. Then take the dictionary's
  translation of the normalised text when it is a key with a translation for the language;
  otherwise take the first key, in dictionary order, that occurs in the normalised text
  (\<open>sublist\<close> is the library's contiguous-sublist relation), and its translation for the
  language; otherwise mark the original text as passed through.
\<close>

definition lowercase_ref :: "(jsstring \<Rightarrow> jsstring) \<Rightarrow> jsstring \<Rightarrow> jsstring" where
  "lowercase_ref uni s =
     (if list_all (\<lambda>c. c < 128) s
      then map (\<lambda>c. case map_of (zip (asc ''ABCDEFGHIJKLMNOPQRSTUVWXYZ'')
                                     (asc ''abcdefghijklmnopqrstuvwxyz'')) c of
                       Some l \<Rightarrow> l | None \<Rightarrow> c) s
      else uni s)"

definition white_space :: "nat set" where
  "white_space = {9..13} \<union> {32, 160, 5760} \<union> {8192..8202} \<union> {8232, 8233, 8239, 8287, 12288, 65279}"

fun drop_leading :: "jsstring \<Rightarrow> jsstring" where
  "drop_leading [] = []"
| "drop_leading (c # cs) = (if c \<in> white_space then drop_leading cs else c # cs)"

fun drop_trailing :: "jsstring \<Rightarrow> jsstring" where
  "drop_trailing [] = []"
| "drop_trailing (c # cs) = (if set (c # cs) \<subseteq> white_space then [] else c # drop_trailing cs)"

definition normalize_ref :: "(jsstring \<Rightarrow> jsstring) \<Rightarrow> jsstring \<Rightarrow> jsstring" where
  "normalize_ref uni text =
     [c \<leftarrow> drop_trailing (drop_leading (lowercase_ref uni text)). c \<notin> set (asc ''?.!'')]"

definition dict_lookup :: "jsstring \<Rightarrow> SupportedLanguageCode \<Rightarrow> jsstring option" where
  "dict_lookup key lang =
     (case map_of OFFLINE_DICTIONARY key of None \<Rightarrow> None | Some entry \<Rightarrow> map_of entry lang)"

definition passthrough :: "jsstring \<Rightarrow> jsstring" where
  "passthrough text = asc ''[Offline: '' @ text @ asc '']''"

definition resolve_ref :: "(jsstring \<Rightarrow> jsstring) \<Rightarrow> jsstring \<Rightarrow> SupportedLanguageCode \<Rightarrow> jsstring" where
  "resolve_ref uni text lang =
     (let n = normalize_ref uni text in
      case dict_lookup n lang of
        Some t \<Rightarrow> t
      | None \<Rightarrow>
          (case filter (\<lambda>k. sublist k n) (map fst OFFLINE_DICTIONARY) of
             [] \<Rightarrow> passthrough text
           | k # _ \<Rightarrow> (case dict_lookup k lang of Some t \<Rightarrow> t | None \<Rightarrow> passthrough text)))"

text \<open>
  The rule table of the error classifier, in the words of the specification, first matching
  rule first.
\<close>

datatype kind = ContentSafetyBlocked | RateLimited | CopyrightBlocked | Unclassified

definition classify :: "jsstring \<Rightarrow> kind" where
  "classify msg =
     (if sublist (asc ''SAFETY'') msg then ContentSafetyBlocked
      else if sublist (asc ''429'') msg \<or> sublist (asc ''quota'') msg then RateLimited
      else if sublist (asc ''RECITATION'') msg then CopyrightBlocked
      else Unclassified)"

text \<open>
  A sample environment and a sample state for concrete instances. \<open>SUPPORTED_LANGUAGES\<close>
  is declared in the constants module, so the sample table is a stand-in with one entry per
  code and a locale of its own for each; the state is the component's initial state with a
  signed-in user who is not premium.
\<close>

definition sample_languages :: "SupportedLanguageCode \<Rightarrow> LanguageOption" where
  "sample_languages c =
     \<lparr>code = c, name = asc ''lang-'' @ code_str c, nativeName = code_str c,
      ttsLocale = code_str c @ asc ''-XX'', flag = []\<rparr>"

definition sample_result :: TranslationResult where
  "sample_result =
     \<lparr>original_text = asc ''selamat pagi'', detected_language = asc ''id'',
      translated_text = asc ''good morning'', phonetic = None\<rparr>"

definition env0 :: env where
  "env0 =
     \<lparr>today = asc ''2024-01-02'', now = 1704153600000, uuid = asc ''u1'',
      SUPPORTED_LANGUAGES = sample_languages, lower_uni = (\<lambda>s. s),
      generateContent = Inr (Some (asc ''{}'')), JSON_parse = (\<lambda>t. Inr sample_result),
      navigator_onLine = True, microphone = None\<rparr>"

definition app0 :: App where
  "app0 =
     \<lparr>user = Some \<lparr>email = asc ''a@b.c'', name = asc ''A'', isPremium = None,
                   downloadedLanguages = None\<rparr>,
      history = [], mode = voice_to_voice, motherLangCode = L_en, targetLangCode = L_id,
      isRecording = False, isLoading = False, translationResult = None, error = None, isOnline = True,
      showPremiumModal = False, gv_usage = None, gv_history = [], trace = []\<rparr>"

definition premium_user :: "SupportedLanguageCode list \<Rightarrow> User" where
  "premium_user packs =
     \<lparr>email = asc ''p@b.c'', name = asc ''P'', isPremium = Some True,
      downloadedLanguages = Some packs\<rparr>"

section \<open>The quota check and the usage ledger\<close>

text \<open>
  One call of the quota check allows a request exactly when the user is premium or the effective
  count (the stored count of a ledger dated today, 0 for an older or an absent ledger) is
  below 3; so a non-premium user is allowed if and only if the effective count is below 3,
  and a premium user always. The check leaves both localStorage entries and the history as
  they were.
\<close>

theorem checkUsageLimit_quota:
  "fst (checkUsageLimit e s) =
     (user_isPremium (user s) \<or> effective_count (today e) (gv_usage s) < 3)
   \<and> gv_usage (snd (checkUsageLimit e s)) = gv_usage s
   \<and> gv_history (snd (checkUsageLimit e s)) = gv_history s
   \<and> history (snd (checkUsageLimit e s)) = history s"
  by (cases "gv_usage s")
     (auto simp: checkUsageLimit_def called_def effective_count_def Let_def)

text \<open>
  On 2024-01-02 a non-premium user with three requests counted that day is blocked, with two
  is allowed, with three counted the day before is allowed, and a premium user is allowed
  whatever the ledger.
\<close>

theorem checkUsageLimit_quota_witness:
  "\<not> fst (checkUsageLimit env0 (app0\<lparr>gv_usage := Some \<lparr>date = asc ''2024-01-02'', count = 3\<rparr>\<rparr>))
   \<and> fst (checkUsageLimit env0 (app0\<lparr>gv_usage := Some \<lparr>date = asc ''2024-01-02'', count = 2\<rparr>\<rparr>))
   \<and> fst (checkUsageLimit env0 (app0\<lparr>gv_usage := Some \<lparr>date = asc ''2024-01-01'', count = 3\<rparr>\<rparr>))
   \<and> fst (checkUsageLimit env0 (app0\<lparr>user := Some (premium_user []),
              gv_usage := Some \<lparr>date = asc ''2024-01-02'', count = 3\<rparr>\<rparr>))"
  using checkUsageLimit_quota [of env0 "app0\<lparr>gv_usage := Some \<lparr>date = asc ''2024-01-02'', count = 3\<rparr>\<rparr>"]
        checkUsageLimit_quota [of env0 "app0\<lparr>gv_usage := Some \<lparr>date = asc ''2024-01-02'', count = 2\<rparr>\<rparr>"]
        checkUsageLimit_quota [of env0 "app0\<lparr>gv_usage := Some \<lparr>date = asc ''2024-01-01'', count = 3\<rparr>\<rparr>"]
        checkUsageLimit_quota [of env0 "app0\<lparr>user := Some (premium_user []),
              gv_usage := Some \<lparr>date = asc ''2024-01-02'', count = 3\<rparr>\<rparr>"]
  by (simp add: env0_def app0_def premium_user_def user_isPremium_def effective_count_def asc_def)

text \<open>
  What \<open>incrementUsage\<close> stores: nothing new for a premium user; a ledger dated today with
  count 1 when none is stored; otherwise the stored ledger with its count raised by one and
  its date as it was.
\<close>

lemma incrementUsage_gv_usage:
  "gv_usage (incrementUsage e s) =
     (if user_isPremium (user s) then gv_usage s
      else case gv_usage s of
             None \<Rightarrow> Some \<lparr>date = today e, count = 1\<rparr>
           | Some u \<Rightarrow> Some (u\<lparr>count := count u + 1\<rparr>))"
  by (simp add: incrementUsage_def split: option.splits)

text \<open>
  C2. \<open>incrementUsage\<close> on a stale ledger: on 2024-01-02, for a user who is not premium and
  a stored ledger dated 2024-01-01 with count 3, it stores the ledger dated 2024-01-01 with
  count 4. The ledger is not replaced by one dated today, and the quota check, which reads a
  ledger of another day as count 0, still allows the request that follows.
\<close>

theorem incrementUsage_stale_ledger:
  "today env0 = asc ''2024-01-02''
   \<and> \<not> user_isPremium (user app0)
   \<and> gv_usage (incrementUsage env0 (app0\<lparr>gv_usage := Some \<lparr>date = asc ''2024-01-01'', count = 3\<rparr>\<rparr>))
       = Some \<lparr>date = asc ''2024-01-01'', count = 4\<rparr>
   \<and> fst (checkUsageLimit env0
             (incrementUsage env0 (app0\<lparr>gv_usage := Some \<lparr>date = asc ''2024-01-01'', count = 3\<rparr>\<rparr>)))"
  by (simp add: incrementUsage_def checkUsageLimit_def called_def env0_def app0_def
                user_isPremium_def asc_def)

text \<open>
  Once the stored ledger is dated another day it stays so: however many requests
  \<open>incrementUsage\<close> records, the check goes on allowing a user who is not premium.
\<close>

lemma stale_ledger_never_blocks:
  assumes "\<not> user_isPremium (user s)" and "gv_usage s = Some u" and "date u \<noteq> today e"
  shows "fst (checkUsageLimit e ((incrementUsage e ^^ n) s))"
proof -
  have inv: "user ((incrementUsage e ^^ n) s) = user s
             \<and> (\<exists>u'. gv_usage ((incrementUsage e ^^ n) s) = Some u' \<and> date u' = date u)"
  proof (induction n)
    case 0
    show ?case using assms(2) by simp
  next
    case (Suc n)
    then show ?case
      using assms(1) by (auto simp: incrementUsage_def)
  qed
  then show ?thesis
    using assms(1,3) by (auto simp: checkUsageLimit_def called_def Let_def)
qed

section \<open>The offline resolver\<close>

text \<open>
  \<open>js_includes\<close> is the contiguous-sublist relation of the library; \<open>find\<close> returns the
  head of the matching elements; no translation of the dictionary is the empty string, so a
  translation that was found is never taken for a missing one; and a key found by the scan
  is a key of the dictionary, so the second lookup cannot fail.
\<close>

text \<open>
  The normalisation of the code is the normalisation of the reference: the arithmetic on
  the capital letters against the alphabet, the two \<open>dropWhile\<close> with a reversal against
  the removal of white space from each end, the filter on three code units against the three
  marks.
\<close>

lemma enum_upper:
  "65 \<le> (c::nat) \<and> c \<le> 90 \<Longrightarrow>
   c = 65 \<or> c = 66 \<or> c = 67 \<or> c = 68 \<or> c = 69 \<or> c = 70 \<or> c = 71 \<or> c = 72 \<or> c = 73 \<or> c = 74 \<or>
   c = 75 \<or> c = 76 \<or> c = 77 \<or> c = 78 \<or> c = 79 \<or> c = 80 \<or> c = 81 \<or> c = 82 \<or> c = 83 \<or> c = 84 \<or>
   c = 85 \<or> c = 86 \<or> c = 87 \<or> c = 88 \<or> c = 89 \<or> c = 90"
  by presburger

lemma upper_letters: "(c \<in> set (asc ''ABCDEFGHIJKLMNOPQRSTUVWXYZ'')) = (65 \<le> c \<and> c \<le> 90)"
  using enum_upper [of c] by (auto simp: asc_def)

lemma lower_letter:
  "(case map_of (zip (asc ''ABCDEFGHIJKLMNOPQRSTUVWXYZ'') (asc ''abcdefghijklmnopqrstuvwxyz'')) c of
      Some l \<Rightarrow> l | None \<Rightarrow> c) = ascii_lower c"
proof (cases "65 \<le> c \<and> c \<le> 90")
  case True
  with enum_upper [of c] show ?thesis
    by (auto simp: asc_def ascii_lower_def)
next
  case False
  then have "c \<notin> set (asc ''ABCDEFGHIJKLMNOPQRSTUVWXYZ'')" by (simp add: upper_letters)
  then have "map_of (zip (asc ''ABCDEFGHIJKLMNOPQRSTUVWXYZ'') (asc ''abcdefghijklmnopqrstuvwxyz'')) c = None"
    by (simp add: map_of_zip_is_None asc_def)
  with False show ?thesis by (simp add: ascii_lower_def)
qed

lemma lowercase_ref_eq: "lowercase_ref uni s = toLowerCase uni s"
  unfolding lowercase_ref_def toLowerCase_def lower_letter by (rule refl)

lemma white_space_eq: "(c \<in> white_space) = is_space c"
  by (auto simp: white_space_def is_space_def)

lemma drop_leading_eq: "drop_leading s = dropWhile is_space s"
  by (induction s) (simp_all add: white_space_eq)

lemma drop_trailing_all: "set s \<subseteq> white_space \<Longrightarrow> drop_trailing s = []"
  by (cases s) simp_all

lemma drop_trailing_eq: "drop_trailing s = rev (dropWhile is_space (rev s))"
proof (induction s)
  case Nil
  show ?case by simp
next
  case (Cons c cs)
  show ?case
  proof (cases "set cs \<subseteq> white_space")
    case True
    then have "\<forall>x\<in>set (rev cs). is_space x" by (auto simp: white_space_eq [symmetric])
    then show ?thesis
      using True by (auto simp: dropWhile_append white_space_eq drop_trailing_all)
  next
    case False
    then have "\<not> (\<forall>x\<in>set (rev cs). is_space x)" by (auto simp: white_space_eq [symmetric])
    then show ?thesis
      using False Cons.IH by (auto simp: dropWhile_append)
  qed
qed

lemma normalize_ref_eq: "normalize_ref uni text = cleanText uni text"
proof -
  have "(\<lambda>c. c \<notin> set (asc ''?.!'')) = (\<lambda>c. c \<noteq> 63 \<and> c \<noteq> 46 \<and> c \<noteq> 33)"
    by (auto simp: asc_def)
  then show ?thesis
    by (simp add: normalize_ref_def cleanText_def strip_punct_def trim_def
                  lowercase_ref_eq drop_leading_eq drop_trailing_eq)
qed

lemma includes_sublist: "js_includes s k = sublist k s"
  by (induction s) (auto simp: sublist_Cons_right)

lemma find_filter_hd: "find P xs = (case filter P xs of [] \<Rightarrow> None | x # _ \<Rightarrow> Some x)"
  by (induction xs) auto

lemma dict_entries_nonempty:
  "list_all (\<lambda>(k, e). list_all (\<lambda>(l, t). t \<noteq> []) e) OFFLINE_DICTIONARY"
  by (simp add: OFFLINE_DICTIONARY_def asc_def)

lemma dict_lookup_nonempty:
  assumes "dict_lookup k lang = Some t"
  shows "t \<noteq> []"
proof -
  from assms obtain e where e: "map_of OFFLINE_DICTIONARY k = Some e" and t: "map_of e lang = Some t"
    by (auto simp: dict_lookup_def split: option.splits)
  from e have "(k, e) \<in> set OFFLINE_DICTIONARY" by (rule map_of_SomeD)
  with dict_entries_nonempty have "list_all (\<lambda>(l, t). t \<noteq> []) e"
    by (auto simp: list_all_iff)
  moreover from t have "(lang, t) \<in> set e" by (rule map_of_SomeD)
  ultimately show ?thesis by (auto simp: list_all_iff)
qed

lemma falsy_dict_lookup: "falsy (dict_lookup k lang) = (dict_lookup k lang = None)"
  using dict_lookup_nonempty [of k lang]
  by (cases "dict_lookup k lang") (auto simp: falsy_def)

lemma found_key_defined:
  assumes "find P (map fst OFFLINE_DICTIONARY) = Some k"
  shows "\<exists>e. map_of OFFLINE_DICTIONARY k = Some e"
proof -
  from assms have "k \<in> set (map fst OFFLINE_DICTIONARY)"
    by (auto simp: find_Some_iff)
  then have "map_of OFFLINE_DICTIONARY k \<noteq> None"
    by (simp add: map_of_eq_None_iff)
  then show ?thesis by auto
qed

lemma offline_result_lookup:
  "offline_result text (dict_lookup k lang) =
     \<lparr>original_text = text, detected_language = asc ''en'',
      translated_text = (case dict_lookup k lang of Some t \<Rightarrow> t | None \<Rightarrow> passthrough text),
      phonetic = Some []\<rparr>"
  using falsy_dict_lookup [of k lang]
  by (cases "dict_lookup k lang") (auto simp: offline_result_def passthrough_def falsy_def)

lemma translateOffline_resolve:
  "translateOffline uni text lang =
     Inr \<lparr>original_text = text, detected_language = asc ''en'',
          translated_text = resolve_ref uni text lang, phonetic = Some []\<rparr>"
proof -
  define n where "n = cleanText uni text"
  define keys where "keys = filter (\<lambda>k. sublist k n) (map fst OFFLINE_DICTIONARY)"
  have n: "normalize_ref uni text = n" by (simp add: n_def normalize_ref_eq)
  have tr: "(case map_of OFFLINE_DICTIONARY n of None \<Rightarrow> None | Some entry \<Rightarrow> map_of entry lang)
            = dict_lookup n lang" by (simp add: dict_lookup_def)
  have fnd: "find (\<lambda>key. js_includes n key) (map fst OFFLINE_DICTIONARY) =
             (case keys of [] \<Rightarrow> None | k # _ \<Rightarrow> Some k)"
    by (simp add: find_filter_hd includes_sublist keys_def)
  have ref: "resolve_ref uni text lang =
     (case dict_lookup n lang of Some t \<Rightarrow> t
      | None \<Rightarrow> (case keys of [] \<Rightarrow> passthrough text
                 | k # _ \<Rightarrow> (case dict_lookup k lang of Some t \<Rightarrow> t | None \<Rightarrow> passthrough text)))"
    unfolding resolve_ref_def Let_def n keys_def by (rule refl)
  have code: "translateOffline uni text lang =
     (if falsy (dict_lookup n lang) then
        (case keys of [] \<Rightarrow> Inr (offline_result text (dict_lookup n lang))
         | k # _ \<Rightarrow> (case map_of OFFLINE_DICTIONARY k of
                       None \<Rightarrow> Inl (Error (asc ''TypeError''))
                     | Some entry \<Rightarrow> Inr (offline_result text (map_of entry lang))))
      else Inr (offline_result text (dict_lookup n lang)))"
    by (simp add: translateOffline_def Let_def tr n_def [symmetric] fnd split: list.splits)
  show ?thesis
  proof (cases "falsy (dict_lookup n lang)")
    case False
    then obtain t where "dict_lookup n lang = Some t"
      by (auto simp: falsy_dict_lookup)
    with False show ?thesis
      using offline_result_lookup [of _ n lang] by (simp add: code ref)
  next
    case True
    then have none: "dict_lookup n lang = None" by (simp add: falsy_dict_lookup)
    show ?thesis
    proof (cases keys)
      case Nil
      with True none show ?thesis
        using offline_result_lookup [of _ n lang] by (simp add: code ref)
    next
      case (Cons k ks)
      then have "find (\<lambda>key. js_includes n key) (map fst OFFLINE_DICTIONARY) = Some k"
        by (simp add: fnd)
      from found_key_defined [OF this] obtain e where e: "map_of OFFLINE_DICTIONARY k = Some e"
        by auto
      then have ek: "map_of e lang = dict_lookup k lang" by (simp add: dict_lookup_def)
      from True none Cons e show ?thesis
        using offline_result_lookup [of _ k lang] by (simp add: code ref ek)
    qed
  qed
qed

lemma help_me_please:
  "translateOffline uni (asc ''can you help me please'') L_ja =
     Inr \<lparr>original_text = asc ''can you help me please'', detected_language = asc ''en'',
          translated_text = [21161, 12369, 12390], phonetic = Some []\<rparr>"
  by (simp add: translateOffline_def cleanText_def toLowerCase_def ascii_lower_def trim_def
        is_space_def strip_punct_def OFFLINE_DICTIONARY_def asc_def falsy_def offline_result_def)

lemma hello_exclaimed:
  "translateOffline uni (asc ''Hello!'') L_es =
     Inr \<lparr>original_text = asc ''Hello!'', detected_language = asc ''en'',
          translated_text = asc ''hola'', phonetic = Some []\<rparr>"
  by (simp add: translateOffline_def cleanText_def toLowerCase_def ascii_lower_def trim_def
        is_space_def strip_punct_def OFFLINE_DICTIONARY_def asc_def falsy_def offline_result_def)

lemma good_morning_dotted:
  "translateOffline uni (asc '' Good... MORNING! '') L_id =
     Inr \<lparr>original_text = asc '' Good... MORNING! '', detected_language = asc ''en'',
          translated_text = asc ''selamat pagi'', phonetic = Some []\<rparr>"
  by (simp add: translateOffline_def cleanText_def toLowerCase_def ascii_lower_def trim_def
        is_space_def strip_punct_def OFFLINE_DICTIONARY_def asc_def falsy_def offline_result_def)

text \<open>
  C6. For every input text and every target code, \<open>translateOffline\<close> returns a result
  (never the error branch) whose original text is the input, whose detected language is
  \<open>en\<close>, whose phonetic field is the empty string and whose translated text is what the
  reference algorithm gives: with the text normalised by lowercasing, trimming and removing
  the marks \<open>?\<close>, \<open>.\<close> and \<open>!\<close>, the translation of the normalised text when it is a
  key, otherwise the translation of the first key in dictionary order that occurs in the
  normalised text, otherwise (also when the key found has no translation for the code) the
  original text inside the marker \<open>[Offline: ...]\<close>. In particular
  \<open>can you help me please\<close> resolves for \<open>ja\<close> to the entry of \<open>help me\<close>,
  U+52A9 U+3051 U+3066; \<open>Hello!\<close> resolves for \<open>es\<close> to \<open>hola\<close>; and
  \<open>Good... MORNING!\<close> between spaces resolves for \<open>id\<close> to \<open>selamat pagi\<close>, an entry
  it reaches only with the capitals lowered and the dots removed.
\<close>

theorem translateOffline_reference:
  "translateOffline uni text lang =
     Inr \<lparr>original_text = text, detected_language = asc ''en'',
          translated_text = resolve_ref uni text lang, phonetic = Some []\<rparr>
   \<and> translateOffline uni (asc ''can you help me please'') L_ja =
     Inr \<lparr>original_text = asc ''can you help me please'', detected_language = asc ''en'',
          translated_text = [21161, 12369, 12390], phonetic = Some []\<rparr>
   \<and> translateOffline uni (asc ''Hello!'') L_es =
     Inr \<lparr>original_text = asc ''Hello!'', detected_language = asc ''en'',
          translated_text = asc ''hola'', phonetic = Some []\<rparr>
   \<and> translateOffline uni (asc '' Good... MORNING! '') L_id =
     Inr \<lparr>original_text = asc '' Good... MORNING! '', detected_language = asc ''en'',
          translated_text = asc ''selamat pagi'', phonetic = Some []\<rparr>"
  using translateOffline_resolve help_me_please hello_exclaimed good_morning_dotted by simp

text \<open>
  The reference algorithm run on its own: \<open>Good... MORNING!\<close> between spaces normalises
  to \<open>good morning\<close> and resolves for \<open>id\<close> to \<open>selamat pagi\<close>, and so does the code;
  \<open>Hello\<close> for \<open>ko\<close>, a code the dictionary has no translations for, comes back marked.
\<close>

theorem translateOffline_reference_witness:
  "normalize_ref (\<lambda>s. s) (asc '' Good... MORNING! '') = asc ''good morning''
   \<and> translateOffline (\<lambda>s. s) (asc '' Good... MORNING! '') L_id =
     Inr \<lparr>original_text = asc '' Good... MORNING! '', detected_language = asc ''en'',
          translated_text = asc ''selamat pagi'', phonetic = Some []\<rparr>
   \<and> translateOffline (\<lambda>s. s) (asc ''Hello'') L_ko =
     Inr \<lparr>original_text = asc ''Hello'', detected_language = asc ''en'',
          translated_text = asc ''[Offline: Hello]'', phonetic = Some []\<rparr>"
proof -
  have n1: "normalize_ref (\<lambda>s. s) (asc '' Good... MORNING! '') = asc ''good morning''"
    by (simp add: normalize_ref_def lowercase_ref_def white_space_def asc_def)
  have n2: "normalize_ref (\<lambda>s. s) (asc ''Hello'') = asc ''hello''"
    by (simp add: normalize_ref_def lowercase_ref_def white_space_def asc_def)
  have r1: "resolve_ref (\<lambda>s. s) (asc '' Good... MORNING! '') L_id = asc ''selamat pagi''"
    unfolding resolve_ref_def n1 Let_def
    by (simp add: dict_lookup_def OFFLINE_DICTIONARY_def asc_def)
  have r2: "resolve_ref (\<lambda>s. s) (asc ''Hello'') L_ko = asc ''[Offline: Hello]''"
    unfolding resolve_ref_def n2 Let_def
    by (simp add: dict_lookup_def OFFLINE_DICTIONARY_def asc_def passthrough_def)
  from translateOffline_reference [of "\<lambda>s. s" "asc '' Good... MORNING! ''" L_id]
  have "translateOffline (\<lambda>s. s) (asc '' Good... MORNING! '') L_id =
     Inr \<lparr>original_text = asc '' Good... MORNING! '', detected_language = asc ''en'',
          translated_text = resolve_ref (\<lambda>s. s) (asc '' Good... MORNING! '') L_id,
          phonetic = Some []\<rparr>"
    by (rule conjunct1)
  then have A: "translateOffline (\<lambda>s. s) (asc '' Good... MORNING! '') L_id =
     Inr \<lparr>original_text = asc '' Good... MORNING! '', detected_language = asc ''en'',
          translated_text = asc ''selamat pagi'', phonetic = Some []\<rparr>"
    by (simp only: r1)
  from translateOffline_reference [of "\<lambda>s. s" "asc ''Hello''" L_ko]
  have "translateOffline (\<lambda>s. s) (asc ''Hello'') L_ko =
     Inr \<lparr>original_text = asc ''Hello'', detected_language = asc ''en'',
          translated_text = resolve_ref (\<lambda>s. s) (asc ''Hello'') L_ko, phonetic = Some []\<rparr>"
    by (rule conjunct1)
  then have B: "translateOffline (\<lambda>s. s) (asc ''Hello'') L_ko =
     Inr \<lparr>original_text = asc ''Hello'', detected_language = asc ''en'',
          translated_text = asc ''[Offline: Hello]'', phonetic = Some []\<rparr>"
    by (simp only: r2)
  from n1 A B show ?thesis by blast
qed

section \<open>The error classifier\<close>

text \<open>
  C7. \<open>handleGenAIError\<close> is a function of the message alone that follows the rule table
  in order: \<open>SAFETY\<close> gives the safety error, otherwise \<open>429\<close> or \<open>quota\<close> gives the
  rate-limit error, otherwise \<open>RECITATION\<close> gives the copyright error, otherwise the error
  is thrown on as it came; a message containing \<open>SAFETY\<close> is classified as blocked for
  safety whatever else it contains.
\<close>

theorem handleGenAIError_classify:
  "handleGenAIError err =
     (case classify (message err) of
        ContentSafetyBlocked \<Rightarrow>
          Error (asc ''Safety Block: The content was flagged as inappropriate for translation.'')
      | RateLimited \<Rightarrow>
          Error (asc ''Limit Reached: The translation engine is currently over capacity. Please try again in a few seconds.'')
      | CopyrightBlocked \<Rightarrow>
          Error (asc ''Recitation Block: The engine detected copyrighted material and cannot translate it.'')
      | Unclassified \<Rightarrow> err)
   \<and> (sublist (asc ''SAFETY'') (message err) \<longrightarrow> classify (message err) = ContentSafetyBlocked)"
  by (simp add: handleGenAIError_def classify_def includes_sublist Let_def)

text \<open>
  A message with both \<open>429\<close> and \<open>SAFETY\<close> gives the safety error, one with \<open>429\<close>
  only the rate-limit error, and one with neither is passed through.
\<close>

theorem handleGenAIError_classify_witness:
  "sublist (asc ''SAFETY'') (asc ''429 SAFETY'') \<and> sublist (asc ''429'') (asc ''429 SAFETY'')
   \<and> handleGenAIError (Error (asc ''429 SAFETY'')) =
       Error (asc ''Safety Block: The content was flagged as inappropriate for translation.'')
   \<and> handleGenAIError (Error (asc ''HTTP 429'')) =
       Error (asc ''Limit Reached: The translation engine is currently over capacity. Please try again in a few seconds.'')
   \<and> handleGenAIError (Error (asc ''timeout'')) = Error (asc ''timeout'')"
proof -
  have s: "sublist (asc ''SAFETY'') (asc ''429 SAFETY'')"
    by (simp add: asc_def sublist_code prefix_code)
  have q: "sublist (asc ''429'') (asc ''429 SAFETY'')"
    by (simp add: asc_def sublist_code prefix_code)
  have c1: "classify (asc ''HTTP 429'') = RateLimited"
    by (simp add: classify_def asc_def sublist_code prefix_code)
  have c2: "classify (asc ''timeout'') = Unclassified"
    by (simp add: classify_def asc_def sublist_code prefix_code)
  show ?thesis
    using s q handleGenAIError_classify [of "Error (asc ''429 SAFETY'')"]
          handleGenAIError_classify [of "Error (asc ''HTTP 429'')"]
          handleGenAIError_classify [of "Error (asc ''timeout'')"]
    by (simp add: c1 c2)
qed

section \<open>The request handlers\<close>

lemmas handler_defs =
  called_def speakText_def addToHistory_def setHistory_def incrementUsage_def
  translateAudio_def translateText_def translateImage_def

lemma checkUsageLimit_snd:
  "snd (checkUsageLimit e s) =
     (if fst (checkUsageLimit e s) then called CheckUsageLimit s
      else (called CheckUsageLimit s)\<lparr>showPremiumModal := True\<rparr>)"
  by (simp add: checkUsageLimit_def Let_def)

text \<open>
  C4. An image submission while offline sets the connectivity message and returns at once:
  the trace is unchanged (no quota check, no call of a translation), and so are the history,
  both localStorage entries, the premium prompt and the shown result, whoever the user is.
\<close>

theorem image_offline_connectivity_required:
  assumes "\<not> isOnline s"
  shows "error (handleImageTranslate e base64Image mimeType s) =
           Some (asc ''Visual intelligence requires a cloud connection. Please connect to the internet to scan images.'')
       \<and> trace (handleImageTranslate e base64Image mimeType s) = trace s
       \<and> history (handleImageTranslate e base64Image mimeType s) = history s
       \<and> gv_history (handleImageTranslate e base64Image mimeType s) = gv_history s
       \<and> gv_usage (handleImageTranslate e base64Image mimeType s) = gv_usage s
       \<and> showPremiumModal (handleImageTranslate e base64Image mimeType s) = showPremiumModal s
       \<and> translationResult (handleImageTranslate e base64Image mimeType s) = translationResult s"
  using assms by (simp add: handleImageTranslate_def)

text \<open>The same for a premium user with a downloaded pack, offline.\<close>

theorem image_offline_connectivity_required_witness:
  "\<not> isOnline (app0\<lparr>isOnline := False, user := Some (premium_user [L_id])\<rparr>)
   \<and> error (handleImageTranslate env0 (asc ''AAAA'') (asc ''image/png'')
              (app0\<lparr>isOnline := False, user := Some (premium_user [L_id])\<rparr>)) =
           Some (asc ''Visual intelligence requires a cloud connection. Please connect to the internet to scan images.'')
   \<and> trace (handleImageTranslate env0 (asc ''AAAA'') (asc ''image/png'')
              (app0\<lparr>isOnline := False, user := Some (premium_user [L_id])\<rparr>)) = []
   \<and> history (handleImageTranslate env0 (asc ''AAAA'') (asc ''image/png'')
              (app0\<lparr>isOnline := False, user := Some (premium_user [L_id])\<rparr>)) = []
   \<and> gv_usage (handleImageTranslate env0 (asc ''AAAA'') (asc ''image/png'')
              (app0\<lparr>isOnline := False, user := Some (premium_user [L_id])\<rparr>)) = None"
  using image_offline_connectivity_required
          [of "app0\<lparr>isOnline := False, user := Some (premium_user [L_id])\<rparr>" env0
              "asc ''AAAA''" "asc ''image/png''"]
  by (simp add: app0_def)

text \<open>
  C8. When the cloud call of a request fails, the request leaves the history and both
  localStorage entries as they were, in each of the three modes. (The offline resolver, the
  only other translation a request can call, never fails.)
\<close>

theorem failed_capability_writes_nothing:
  assumes "isOnline s" and "generate e = Inl err"
  shows "history (processAudio e base64 blobType s) = history s
       \<and> gv_history (processAudio e base64 blobType s) = gv_history s
       \<and> gv_usage (processAudio e base64 blobType s) = gv_usage s
       \<and> history (handleTextTranslate e inputText s) = history s
       \<and> gv_history (handleTextTranslate e inputText s) = gv_history s
       \<and> gv_usage (handleTextTranslate e inputText s) = gv_usage s
       \<and> history (handleImageTranslate e base64Image mimeType s) = history s
       \<and> gv_history (handleImageTranslate e base64Image mimeType s) = gv_history s
       \<and> gv_usage (handleImageTranslate e base64Image mimeType s) = gv_usage s"
proof -
  have audio: "history (processAudio e base64 blobType s) = history s
       \<and> gv_history (processAudio e base64 blobType s) = gv_history s
       \<and> gv_usage (processAudio e base64 blobType s) = gv_usage s"
    using assms by (cases base64) (simp_all add: processAudio_def handler_defs Let_def)
  have tx: "history (handleTextTranslate e inputText s) = history s
       \<and> gv_history (handleTextTranslate e inputText s) = gv_history s
       \<and> gv_usage (handleTextTranslate e inputText s) = gv_usage s"
    using assms
    by (cases "checkUsageLimit e s"; cases "fst (checkUsageLimit e s)";
        cases "gv_usage s")
       (auto simp: handleTextTranslate_def checkUsageLimit_def handler_defs Let_def
             split: if_splits)
  have img: "history (handleImageTranslate e base64Image mimeType s) = history s
       \<and> gv_history (handleImageTranslate e base64Image mimeType s) = gv_history s
       \<and> gv_usage (handleImageTranslate e base64Image mimeType s) = gv_usage s"
    using assms
    by (cases "checkUsageLimit e s"; cases "fst (checkUsageLimit e s)";
        cases "gv_usage s")
       (auto simp: handleImageTranslate_def checkUsageLimit_def handler_defs Let_def
             split: if_splits)
  from audio tx img show ?thesis by simp
qed

lemma generate_safety:
  "generate (env0\<lparr>generateContent := Inl (Error (asc ''blocked: SAFETY''))\<rparr>) =
     Inl (Error (asc ''Safety Block: The content was flagged as inappropriate for translation.''))"
  by (simp add: generate_def handleGenAIError_def asc_def)

text \<open>A call blocked for safety, in each mode, from the initial state.\<close>

theorem failed_capability_writes_nothing_witness:
  "isOnline app0
   \<and> generate (env0\<lparr>generateContent := Inl (Error (asc ''blocked: SAFETY''))\<rparr>) =
       Inl (Error (asc ''Safety Block: The content was flagged as inappropriate for translation.''))
   \<and> history (handleTextTranslate (env0\<lparr>generateContent := Inl (Error (asc ''blocked: SAFETY''))\<rparr>)
                (asc ''hello'') app0) = []
   \<and> gv_usage (handleTextTranslate (env0\<lparr>generateContent := Inl (Error (asc ''blocked: SAFETY''))\<rparr>)
                (asc ''hello'') app0) = None
   \<and> history (processAudio (env0\<lparr>generateContent := Inl (Error (asc ''blocked: SAFETY''))\<rparr>)
                (Inr (asc ''AAAA'')) (asc ''audio/webm'') app0) = []
   \<and> gv_usage (handleImageTranslate (env0\<lparr>generateContent := Inl (Error (asc ''blocked: SAFETY''))\<rparr>)
                (asc ''AAAA'') (asc ''image/png'') app0) = None"
proof -
  have on: "isOnline app0" by (simp add: app0_def)
  show ?thesis
    using on generate_safety
      failed_capability_writes_nothing [OF on generate_safety,
         of "Inr (asc ''AAAA'')" "asc ''audio/webm''" "asc ''hello''" "asc ''AAAA''" "asc ''image/png''"]
    by (simp add: app0_def)
qed

text \<open>
  Offline, without the entitlement: what the two handlers do, and what a voice turn does
  from its start, where its quota check is.
\<close>

lemma offline_entitlement_handlers:
  assumes "\<not> isOnline s"
      and "\<not> (user_isPremium (user s) \<and> isDownloaded (user s) (targetLangCode s))"
  shows "error (processAudio e base64 blobType s) =
           Some (if \<not> user_isPremium (user s)
                 then asc ''Offline translation is a Premium feature. Please connect to the internet to upgrade.''
                 else asc ''Language pack for '' @ langName e s
                      @ asc '' not found. Please connect to the internet and go to Settings to download it for offline use.'')
       \<and> trace (processAudio e base64 blobType s) = trace s
       \<and> history (processAudio e base64 blobType s) = history s
       \<and> gv_history (processAudio e base64 blobType s) = gv_history s
       \<and> gv_usage (processAudio e base64 blobType s) = gv_usage s
       \<and> (fst (checkUsageLimit e s) \<longrightarrow>
            error (handleTextTranslate e inputText s) =
              Some (if \<not> user_isPremium (user s)
                    then asc ''Offline text translation is a Premium feature. Please connect to the internet to upgrade.''
                    else asc ''The '' @ langName e s
                         @ asc '' pack is not downloaded. Connect to the internet and go to Settings to download it for offline use.''))
       \<and> (\<not> fst (checkUsageLimit e s) \<longrightarrow>
            error (handleTextTranslate e inputText s) = error s
            \<and> showPremiumModal (handleTextTranslate e inputText s))
       \<and> trace (handleTextTranslate e inputText s) = trace s @ [CheckUsageLimit]
       \<and> history (handleTextTranslate e inputText s) = history s
       \<and> gv_history (handleTextTranslate e inputText s) = gv_history s
       \<and> gv_usage (handleTextTranslate e inputText s) = gv_usage s"
proof -
  have audio: "error (processAudio e base64 blobType s) =
           Some (if \<not> user_isPremium (user s)
                 then asc ''Offline translation is a Premium feature. Please connect to the internet to upgrade.''
                 else asc ''Language pack for '' @ langName e s
                      @ asc '' not found. Please connect to the internet and go to Settings to download it for offline use.'')
       \<and> trace (processAudio e base64 blobType s) = trace s
       \<and> history (processAudio e base64 blobType s) = history s
       \<and> gv_history (processAudio e base64 blobType s) = gv_history s
       \<and> gv_usage (processAudio e base64 blobType s) = gv_usage s"
    using assms by (auto simp: processAudio_def Let_def langName_def)
  obtain ok sq where c: "checkUsageLimit e s = (ok, sq)" by (cases "checkUsageLimit e s")
  then have sq: "sq = (if ok then called CheckUsageLimit s
                       else (called CheckUsageLimit s)\<lparr>showPremiumModal := True\<rparr>)"
    using checkUsageLimit_snd [of e s] by simp
  have tx: "(ok \<longrightarrow>
            error (handleTextTranslate e inputText s) =
              Some (if \<not> user_isPremium (user s)
                    then asc ''Offline text translation is a Premium feature. Please connect to the internet to upgrade.''
                    else asc ''The '' @ langName e s
                         @ asc '' pack is not downloaded. Connect to the internet and go to Settings to download it for offline use.''))
       \<and> (\<not> ok \<longrightarrow>
            error (handleTextTranslate e inputText s) = error s
            \<and> showPremiumModal (handleTextTranslate e inputText s))
       \<and> trace (handleTextTranslate e inputText s) = trace s @ [CheckUsageLimit]
       \<and> history (handleTextTranslate e inputText s) = history s
       \<and> gv_history (handleTextTranslate e inputText s) = gv_history s
       \<and> gv_usage (handleTextTranslate e inputText s) = gv_usage s"
    using assms c sq
    by (cases ok) (auto simp: handleTextTranslate_def called_def Let_def langName_def)
  from audio tx c show ?thesis by simp
qed

lemma voice_offline_entitlement:
  assumes "\<not> isOnline s"
      and "\<not> (user_isPremium (user s) \<and> isDownloaded (user s) (targetLangCode s))"
      and "\<not> isRecording s"
  shows "(fst (checkUsageLimit e s) \<and> microphone e = None \<longrightarrow>
            error (voiceTurn e base64 blobType s) =
              Some (if \<not> user_isPremium (user s)
                    then asc ''Offline translation is a Premium feature. Please connect to the internet to upgrade.''
                    else asc ''Language pack for '' @ langName e s
                         @ asc '' not found. Please connect to the internet and go to Settings to download it for offline use.''))
       \<and> (\<not> fst (checkUsageLimit e s) \<longrightarrow>
            error (voiceTurn e base64 blobType s) = error s
            \<and> showPremiumModal (voiceTurn e base64 blobType s)
            \<and> \<not> isRecording (startRecording e s))
       \<and> trace (voiceTurn e base64 blobType s) = trace s @ [CheckUsageLimit]
       \<and> history (voiceTurn e base64 blobType s) = history s
       \<and> gv_history (voiceTurn e base64 blobType s) = gv_history s
       \<and> gv_usage (voiceTurn e base64 blobType s) = gv_usage s"
proof -
  obtain ok sq where c: "checkUsageLimit e s = (ok, sq)" by (cases "checkUsageLimit e s")
  then have sq: "sq = (if ok then called CheckUsageLimit s
                       else (called CheckUsageLimit s)\<lparr>showPremiumModal := True\<rparr>)"
    using checkUsageLimit_snd [of e s] by simp
  have "(ok \<and> microphone e = None \<longrightarrow>
            error (voiceTurn e base64 blobType s) =
              Some (if \<not> user_isPremium (user s)
                    then asc ''Offline translation is a Premium feature. Please connect to the internet to upgrade.''
                    else asc ''Language pack for '' @ langName e s
                         @ asc '' not found. Please connect to the internet and go to Settings to download it for offline use.''))
       \<and> (\<not> ok \<longrightarrow>
            error (voiceTurn e base64 blobType s) = error s
            \<and> showPremiumModal (voiceTurn e base64 blobType s)
            \<and> \<not> isRecording (startRecording e s))
       \<and> trace (voiceTurn e base64 blobType s) = trace s @ [CheckUsageLimit]
       \<and> history (voiceTurn e base64 blobType s) = history s
       \<and> gv_history (voiceTurn e base64 blobType s) = gv_history s
       \<and> gv_usage (voiceTurn e base64 blobType s) = gv_usage s"
    using assms c sq
    by (cases ok; cases "microphone e")
       (auto simp: voiceTurn_def startRecording_def stopRecording_def processAudio_def
                   called_def Let_def langName_def)
  with c show ?thesis by simp
qed

text \<open>
  C5, as amended. Offline, for a user who is not premium or lacks the pack of the target
  language, a submission that the quota check allows sets the entitlement message (premium
  required, or pack required): a text submission, whose check is in the handler, and a voice
  turn, whose check is made when the recording starts (with the microphone granted, so that
  there is a recording to submit). When the quota check blocks, the premium prompt is shown,
  no error is set and, for voice, no recording starts. In all these cases the offline
  resolver is not called (the trace gains the quota check only) and the history and both
  localStorage entries are unchanged. The first five lines are \<open>processAudio\<close> on its own,
  as the stop of a recording calls it.
\<close>

theorem offline_entitlement_required:
  assumes "\<not> isOnline s"
      and "\<not> (user_isPremium (user s) \<and> isDownloaded (user s) (targetLangCode s))"
  shows "error (processAudio e base64 blobType s) =
           Some (if \<not> user_isPremium (user s)
                 then asc ''Offline translation is a Premium feature. Please connect to the internet to upgrade.''
                 else asc ''Language pack for '' @ langName e s
                      @ asc '' not found. Please connect to the internet and go to Settings to download it for offline use.'')
       \<and> trace (processAudio e base64 blobType s) = trace s
       \<and> history (processAudio e base64 blobType s) = history s
       \<and> gv_history (processAudio e base64 blobType s) = gv_history s
       \<and> gv_usage (processAudio e base64 blobType s) = gv_usage s
       \<and> (fst (checkUsageLimit e s) \<longrightarrow>
            error (handleTextTranslate e inputText s) =
              Some (if \<not> user_isPremium (user s)
                    then asc ''Offline text translation is a Premium feature. Please connect to the internet to upgrade.''
                    else asc ''The '' @ langName e s
                         @ asc '' pack is not downloaded. Connect to the internet and go to Settings to download it for offline use.''))
       \<and> (\<not> fst (checkUsageLimit e s) \<longrightarrow>
            error (handleTextTranslate e inputText s) = error s
            \<and> showPremiumModal (handleTextTranslate e inputText s))
       \<and> trace (handleTextTranslate e inputText s) = trace s @ [CheckUsageLimit]
       \<and> history (handleTextTranslate e inputText s) = history s
       \<and> gv_history (handleTextTranslate e inputText s) = gv_history s
       \<and> gv_usage (handleTextTranslate e inputText s) = gv_usage s
       \<and> (\<not> isRecording s \<longrightarrow>
            (fst (checkUsageLimit e s) \<and> microphone e = None \<longrightarrow>
                 error (voiceTurn e base64 blobType s) =
                   Some (if \<not> user_isPremium (user s)
                         then asc ''Offline translation is a Premium feature. Please connect to the internet to upgrade.''
                         else asc ''Language pack for '' @ langName e s
                              @ asc '' not found. Please connect to the internet and go to Settings to download it for offline use.''))
            \<and> (\<not> fst (checkUsageLimit e s) \<longrightarrow>
                 error (voiceTurn e base64 blobType s) = error s
                 \<and> showPremiumModal (voiceTurn e base64 blobType s)
                 \<and> \<not> isRecording (startRecording e s))
            \<and> trace (voiceTurn e base64 blobType s) = trace s @ [CheckUsageLimit]
            \<and> history (voiceTurn e base64 blobType s) = history s
            \<and> gv_history (voiceTurn e base64 blobType s) = gv_history s
            \<and> gv_usage (voiceTurn e base64 blobType s) = gv_usage s)"
  using offline_entitlement_handlers [OF assms, of e base64 blobType inputText]
        voice_offline_entitlement [OF assms, of e base64 blobType]
  by blast

text \<open>
  A signed-in user who is not premium, offline: with no ledger the text submission and the
  voice turn set their premium messages; with three requests counted today both end at the
  premium prompt.
\<close>

theorem offline_entitlement_required_witness:
  "\<not> isOnline (app0\<lparr>isOnline := False\<rparr>)
   \<and> \<not> isRecording (app0\<lparr>isOnline := False\<rparr>)
   \<and> fst (checkUsageLimit env0 (app0\<lparr>isOnline := False\<rparr>)) \<and> microphone env0 = None
   \<and> error (voiceTurn env0 (Inr (asc ''AAAA'')) (asc ''audio/webm'') (app0\<lparr>isOnline := False\<rparr>)) =
       Some (asc ''Offline translation is a Premium feature. Please connect to the internet to upgrade.'')
   \<and> error (handleTextTranslate env0 (asc ''hello'') (app0\<lparr>isOnline := False\<rparr>)) =
       Some (asc ''Offline text translation is a Premium feature. Please connect to the internet to upgrade.'')
   \<and> trace (voiceTurn env0 (Inr (asc ''AAAA'')) (asc ''audio/webm'') (app0\<lparr>isOnline := False\<rparr>)) =
       trace (app0\<lparr>isOnline := False\<rparr>) @ [CheckUsageLimit]
   \<and> trace (handleTextTranslate env0 (asc ''hello'') (app0\<lparr>isOnline := False\<rparr>)) =
       trace (app0\<lparr>isOnline := False\<rparr>) @ [CheckUsageLimit]
   \<and> \<not> fst (checkUsageLimit env0
        (app0\<lparr>isOnline := False, gv_usage := Some \<lparr>date = asc ''2024-01-02'', count = 3\<rparr>\<rparr>))
   \<and> showPremiumModal (handleTextTranslate env0 (asc ''hello'')
        (app0\<lparr>isOnline := False, gv_usage := Some \<lparr>date = asc ''2024-01-02'', count = 3\<rparr>\<rparr>))
   \<and> showPremiumModal (voiceTurn env0 (Inr (asc ''AAAA'')) (asc ''audio/webm'')
        (app0\<lparr>isOnline := False, gv_usage := Some \<lparr>date = asc ''2024-01-02'', count = 3\<rparr>\<rparr>))"
proof -
  let ?s = "app0\<lparr>isOnline := False\<rparr>"
  let ?q = "app0\<lparr>isOnline := False, gv_usage := Some \<lparr>date = asc ''2024-01-02'', count = 3\<rparr>\<rparr>"
  have a: "\<not> isOnline ?s" by simp
  have np: "\<not> user_isPremium (user ?s)" by (simp add: app0_def user_isPremium_def)
  then have b: "\<not> (user_isPremium (user ?s) \<and> isDownloaded (user ?s) (targetLangCode ?s))"
    by simp
  have r: "\<not> isRecording ?s" by (simp add: app0_def)
  have c: "fst (checkUsageLimit env0 ?s)"
    by (simp add: checkUsageLimit_def called_def app0_def user_isPremium_def Let_def)
  have m: "microphone env0 = None" by (simp add: env0_def)
  have a': "\<not> isOnline ?q" by simp
  have np': "\<not> user_isPremium (user ?q)" by (simp add: app0_def user_isPremium_def)
  then have b': "\<not> (user_isPremium (user ?q) \<and> isDownloaded (user ?q) (targetLangCode ?q))"
    by simp
  have r': "\<not> isRecording ?q" by (simp add: app0_def)
  have c': "\<not> fst (checkUsageLimit env0 ?q)"
    by (simp add: checkUsageLimit_def called_def app0_def env0_def user_isPremium_def Let_def)
  note T = offline_entitlement_required [OF a b, of env0 "Inr (asc ''AAAA'')" "asc ''audio/webm''"
                                            "asc ''hello''"]
  note T' = offline_entitlement_required [OF a' b', of env0 "Inr (asc ''AAAA'')" "asc ''audio/webm''"
                                             "asc ''hello''"]
  from T c m r np
  have V: "error (voiceTurn env0 (Inr (asc ''AAAA'')) (asc ''audio/webm'') ?s) =
       Some (asc ''Offline translation is a Premium feature. Please connect to the internet to upgrade.'')"
    by simp
  from T c np
  have X: "error (handleTextTranslate env0 (asc ''hello'') ?s) =
       Some (asc ''Offline text translation is a Premium feature. Please connect to the internet to upgrade.'')"
    by simp
  from T r have VT: "trace (voiceTurn env0 (Inr (asc ''AAAA'')) (asc ''audio/webm'') ?s) =
       trace ?s @ [CheckUsageLimit]"
    by blast
  from T have XT: "trace (handleTextTranslate env0 (asc ''hello'') ?s) = trace ?s @ [CheckUsageLimit]"
    by blast
  from T' c' have XP: "showPremiumModal (handleTextTranslate env0 (asc ''hello'') ?q)"
    by blast
  from T' c' r' have VP: "showPremiumModal (voiceTurn env0 (Inr (asc ''AAAA'')) (asc ''audio/webm'') ?q)"
    by blast
  from a r c m V X VT XT c' XP VP show ?thesis by blast
qed

text \<open>
  C5 as stated fails: offline, for a user who is not premium and has three requests counted
  today, a text submission sets no error at all; it ends at the quota check with the premium
  prompt.
\<close>

theorem offline_text_quota_counterexample:
  "\<not> isOnline (app0\<lparr>isOnline := False, gv_usage := Some \<lparr>date = asc ''2024-01-02'', count = 3\<rparr>\<rparr>)
   \<and> \<not> user_isPremium (user (app0\<lparr>isOnline := False, gv_usage := Some \<lparr>date = asc ''2024-01-02'', count = 3\<rparr>\<rparr>))
   \<and> error (handleTextTranslate env0 (asc ''hello'')
        (app0\<lparr>isOnline := False, gv_usage := Some \<lparr>date = asc ''2024-01-02'', count = 3\<rparr>\<rparr>)) = None
   \<and> showPremiumModal (handleTextTranslate env0 (asc ''hello'')
        (app0\<lparr>isOnline := False, gv_usage := Some \<lparr>date = asc ''2024-01-02'', count = 3\<rparr>\<rparr>))"
  by (simp add: handleTextTranslate_def checkUsageLimit_def called_def app0_def env0_def
                user_isPremium_def Let_def)

section \<open>The history store\<close>

text \<open>
  One append puts the new item in front and keeps the first 50; a run of appends leaves the
  first 50 of the new items, latest first, followed by the old list.
\<close>

lemma history_addToHistory:
  "history (addToHistory e r s) = take 50 (newItem e r s # history s)"
  unfolding addToHistory_def setHistory_def Let_def by simp

lemma gv_history_addToHistory:
  "gv_history (addToHistory e r s) = history (addToHistory e r s)"
  unfolding addToHistory_def setHistory_def Let_def by simp

lemma newItem_addToHistory:
  "newItem e r (addToHistory e' r' s) = newItem e r s"
  by (simp add: newItem_def addToHistory_def setHistory_def targetLang_def motherLang_def Let_def)

lemma take_append_take: "take n (xs @ take n ys) = take n (xs @ ys)"
  by (simp add: min_def)

lemma history_appendAll:
  "rs \<noteq> [] \<Longrightarrow>
   history (appendAll rs s) = take 50 (rev (map (\<lambda>(e, r). newItem e r s) rs) @ history s)"
proof (induction rs arbitrary: s)
  case Nil
  then show ?case by simp
next
  case (Cons p rs)
  obtain e r where p: "p = (e, r)" by (cases p)
  have step: "appendAll (p # rs) s = appendAll rs (addToHistory e r s)"
    by (simp add: appendAll_def p)
  have mk: "(\<lambda>(e', r'). newItem e' r' (addToHistory e r s)) = (\<lambda>(e', r'). newItem e' r' s)"
    by (simp add: newItem_addToHistory)
  show ?case
  proof (cases rs)
    case Nil
    have "history (appendAll [p] s) = history (addToHistory e r s)"
      by (simp add: appendAll_def p)
    also have "\<dots> = take 50 (newItem e r s # history s)"
      by (rule history_addToHistory)
    also have "newItem e r s # history s = rev (map (\<lambda>(e, r). newItem e r s) [p]) @ history s"
      by (simp add: p)
    finally show ?thesis using Nil by simp
  next
    case (Cons q qs)
    then have "rs \<noteq> []" by simp
    from Cons.IH [OF this, of "addToHistory e r s"]
    have "history (appendAll rs (addToHistory e r s)) =
            take 50 (rev (map (\<lambda>(e', r'). newItem e' r' s) rs) @ take 50 (newItem e r s # history s))"
      unfolding mk history_addToHistory .
    also have "\<dots> = take 50 (rev (map (\<lambda>(e', r'). newItem e' r' s) rs) @ (newItem e r s # history s))"
      by (rule take_append_take)
    also have "rev (map (\<lambda>(e', r'). newItem e' r' s) rs) @ (newItem e r s # history s)
               = rev (map (\<lambda>(e', r'). newItem e' r' s) (p # rs)) @ history s"
      by (simp add: p)
    finally show ?thesis by (simp only: step)
  qed
qed

text \<open>
  C3. After an append the history has at most 50 items and localStorage holds the same
  list. The new item is in front of the old ones, whose order is kept: below 50 items nothing
  is dropped, and at 50 items exactly the last one, the oldest, is dropped. After 51 appends
  to an empty history the list is the items of the 2nd to the 51st append, latest first: 50
  items, the 51st in front, the 2nd last, and the item of the 1st append gone (identifiers
  being distinct).
\<close>

theorem history_capped_newest_first:
  "length (history (addToHistory e r s)) \<le> 50
   \<and> gv_history (addToHistory e r s) = history (addToHistory e r s)
   \<and> (length (history s) < 50 \<longrightarrow>
        history (addToHistory e r s) = newItem e r s # history s)
   \<and> (length (history s) = 50 \<longrightarrow>
        history (addToHistory e r s) = newItem e r s # butlast (history s))
   \<and> (length rs = 51 \<and> history s = [] \<longrightarrow>
        history (appendAll rs s) = rev (map (\<lambda>(e, r). newItem e r s) (tl rs))
        \<and> length (history (appendAll rs s)) = 50
        \<and> hd (history (appendAll rs s)) = newItem (fst (last rs)) (snd (last rs)) s
        \<and> last (history (appendAll rs s)) = newItem (fst (hd (tl rs))) (snd (hd (tl rs))) s
        \<and> (distinct (map (\<lambda>(e, r). uuid e) rs) \<longrightarrow>
             newItem (fst (hd rs)) (snd (hd rs)) s \<notin> set (history (appendAll rs s))))"
proof -
  have a: "length (history (addToHistory e r s)) \<le> 50"
    by (simp only: history_addToHistory length_take min.cobounded2)
  have b: "length (history s) < 50 \<longrightarrow>
        history (addToHistory e r s) = newItem e r s # history s"
    by (simp only: history_addToHistory) simp
  have c: "length (history s) = 50 \<longrightarrow>
        history (addToHistory e r s) = newItem e r s # butlast (history s)"
    by (simp only: history_addToHistory) (simp add: butlast_conv_take)
  have d: "history (appendAll rs s) = rev (map (\<lambda>(e, r). newItem e r s) (tl rs))
        \<and> length (history (appendAll rs s)) = 50
        \<and> hd (history (appendAll rs s)) = newItem (fst (last rs)) (snd (last rs)) s
        \<and> last (history (appendAll rs s)) = newItem (fst (hd (tl rs))) (snd (hd (tl rs))) s
        \<and> (distinct (map (\<lambda>(e, r). uuid e) rs) \<longrightarrow>
             newItem (fst (hd rs)) (snd (hd rs)) s \<notin> set (history (appendAll rs s)))"
    if len: "length rs = 51" and emp: "history s = []"
  proof -
    from len obtain p ps where rs: "rs = p # ps" and ps: "length ps = 50"
      by (cases rs) auto
    let ?mk = "\<lambda>(e, r). newItem e r s"
    have "history (appendAll rs s) = take 50 (rev (map ?mk rs) @ history s)"
      by (rule history_appendAll) (simp add: rs)
    also have "\<dots> = take 50 (rev (map ?mk ps) @ [?mk p])"
      by (simp add: rs emp)
    also have "\<dots> = rev (map ?mk ps)"
      using ps by simp
    finally have h: "history (appendAll rs s) = rev (map ?mk (tl rs))"
      by (simp add: rs)
    from ps have ne: "ps \<noteq> []" by auto
    have hd': "hd (rev (map ?mk ps)) = ?mk (last ps)"
      using ne by (simp add: hd_rev last_map)
    have last': "last (rev (map ?mk ps)) = ?mk (hd ps)"
      using ne by (simp add: last_rev hd_map)
    have l: "last rs = last ps" using ne by (simp add: rs)
    have absent: "newItem (fst p) (snd p) s \<notin> set (rev (map ?mk ps))"
      if dist: "distinct (map (\<lambda>(e, r). uuid e) rs)"
    proof
      assume "newItem (fst p) (snd p) s \<in> set (rev (map ?mk ps))"
      then obtain q where q: "q \<in> set ps" and eq: "newItem (fst q) (snd q) s = newItem (fst p) (snd p) s"
        by (auto simp: case_prod_beta)
      from eq have "item_id (newItem (fst q) (snd q) s) = item_id (newItem (fst p) (snd p) s)"
        by simp
      then have "uuid (fst q) = uuid (fst p)"
        by (simp add: newItem_def Let_def)
      moreover from dist have "uuid (fst p) \<notin> (\<lambda>x. uuid (fst x)) ` set ps"
        by (simp add: rs case_prod_beta)
      moreover from q have "uuid (fst q) \<in> (\<lambda>x. uuid (fst x)) ` set ps"
        by (rule imageI)
      ultimately show False by simp
    qed
    show ?thesis
      using h hd' last' ps ne absent by (simp add: rs case_prod_beta)
  qed
  from a b c d gv_history_addToHistory show ?thesis by blast
qed

text \<open>
  An append to a history of 50 items, and 51 appends numbered 0 to 50 from the initial state:
  the item numbered 50 is in front and the item numbered 0 is gone.
\<close>

theorem history_capped_newest_first_witness:
  "length (history (app0\<lparr>history := replicate 50 (newItem env0 sample_result app0)\<rparr>)) = 50
   \<and> history (addToHistory env0 sample_result
        (app0\<lparr>history := replicate 50 (newItem env0 sample_result app0)\<rparr>)) =
       newItem env0 sample_result (app0\<lparr>history := replicate 50 (newItem env0 sample_result app0)\<rparr>)
         # butlast (replicate 50 (newItem env0 sample_result app0))
   \<and> length (map (\<lambda>n. (env0\<lparr>uuid := [n], now := n\<rparr>, sample_result)) [0..<51]) = 51
   \<and> length (history (appendAll
        (map (\<lambda>n. (env0\<lparr>uuid := [n], now := n\<rparr>, sample_result)) [0..<51]) app0)) = 50
   \<and> hd (history (appendAll
        (map (\<lambda>n. (env0\<lparr>uuid := [n], now := n\<rparr>, sample_result)) [0..<51]) app0)) =
       newItem (env0\<lparr>uuid := [50], now := 50\<rparr>) sample_result app0
   \<and> newItem (env0\<lparr>uuid := [0], now := 0\<rparr>) sample_result app0 \<notin>
       set (history (appendAll
        (map (\<lambda>n. (env0\<lparr>uuid := [n], now := n\<rparr>, sample_result)) [0..<51]) app0))"
proof -
  let ?rs = "map (\<lambda>n. (env0\<lparr>uuid := [n], now := n\<rparr>, sample_result)) [0..<51]"
  let ?s = "app0\<lparr>history := replicate 50 (newItem env0 sample_result app0)\<rparr>"
  have len: "length ?rs = 51" by simp
  have emp: "history app0 = []" by (simp add: app0_def)
  have dist: "distinct (map (\<lambda>(e, r). uuid e) ?rs)"
    by (simp add: o_def distinct_map inj_on_def)
  have hd0: "hd ?rs = (env0\<lparr>uuid := [0], now := 0\<rparr>, sample_result)"
    by (simp add: hd_map upt_rec)
  have last50: "last ?rs = (env0\<lparr>uuid := [50], now := 50\<rparr>, sample_result)"
    by (simp add: last_map)
  have hs: "history ?s = replicate 50 (newItem env0 sample_result app0)" by simp
  have l50: "length (history ?s) = 50" by simp
  from history_capped_newest_first [of env0 sample_result ?s ?rs] l50
  have "history (addToHistory env0 sample_result ?s) =
          newItem env0 sample_result ?s # butlast (history ?s)"
    by blast
  then have A: "history (addToHistory env0 sample_result ?s) =
          newItem env0 sample_result ?s # butlast (replicate 50 (newItem env0 sample_result app0))"
    by (simp only: hs)
  from history_capped_newest_first [of env0 sample_result app0 ?rs] len emp dist
  have C: "length (history (appendAll ?rs app0)) = 50"
    and D: "hd (history (appendAll ?rs app0)) = newItem (fst (last ?rs)) (snd (last ?rs)) app0"
    and E: "newItem (fst (hd ?rs)) (snd (hd ?rs)) app0 \<notin> set (history (appendAll ?rs app0))"
    by blast+
  from D have D': "hd (history (appendAll ?rs app0)) =
                     newItem (env0\<lparr>uuid := [50], now := 50\<rparr>) sample_result app0"
    by (simp only: last50 fst_conv snd_conv)
  from E have E': "newItem (env0\<lparr>uuid := [0], now := 0\<rparr>) sample_result app0
                     \<notin> set (history (appendAll ?rs app0))"
    unfolding hd0 fst_conv snd_conv .
  from l50 A len C D' E' show ?thesis by blast
qed

section \<open>The quota over one day\<close>

text \<open>
  A successful cloud text request of a user who is not premium raises the stored count by
  one; starting without a ledger, three such requests on one day leave the fourth blocked.
\<close>

lemma text_success:
  assumes "isOnline s" and "\<not> user_isPremium (user s)" and "generate e = Inr r"
      and "fst (checkUsageLimit e s)"
  shows "gv_usage (handleTextTranslate e inputText s) =
           (case gv_usage s of
              None \<Rightarrow> Some \<lparr>date = today e, count = 1\<rparr>
            | Some u \<Rightarrow> Some (u\<lparr>count := count u + 1\<rparr>))
       \<and> user (handleTextTranslate e inputText s) = user s
       \<and> isOnline (handleTextTranslate e inputText s) = isOnline s"
proof -
  from assms(4) have c: "checkUsageLimit e s = (True, called CheckUsageLimit s)"
    using checkUsageLimit_snd [of e s] by (cases "checkUsageLimit e s") simp
  show ?thesis
    using assms(1-3)
    by (simp add: handleTextTranslate_def c handler_defs Let_def split: option.splits)
qed

lemma fourth_text_request_blocked:
  assumes "isOnline s" and "\<not> user_isPremium (user s)" and "generate e = Inr r"
      and "gv_usage s = None"
  shows "\<not> fst (checkUsageLimit e
            (handleTextTranslate e t3 (handleTextTranslate e t2 (handleTextTranslate e t1 s))))"
proof -
  let ?s1 = "handleTextTranslate e t1 s"
  let ?s2 = "handleTextTranslate e t2 ?s1"
  let ?s3 = "handleTextTranslate e t3 ?s2"
  have c0: "fst (checkUsageLimit e s)"
    using assms by (simp add: checkUsageLimit_def called_def Let_def)
  from text_success [OF assms(1-3) c0, of t1] assms(4)
  have s1: "gv_usage ?s1 = Some \<lparr>date = today e, count = 1\<rparr>" "user ?s1 = user s" "isOnline ?s1"
    using assms(1) by simp_all
  have c1: "fst (checkUsageLimit e ?s1)"
    using s1 assms(2) by (simp add: checkUsageLimit_def called_def Let_def)
  from text_success [OF s1(3) _ assms(3) c1, of t2] s1 assms(2)
  have s2: "gv_usage ?s2 = Some \<lparr>date = today e, count = 2\<rparr>" "user ?s2 = user s" "isOnline ?s2"
    by simp_all
  have c2: "fst (checkUsageLimit e ?s2)"
    using s2 assms(2) by (simp add: checkUsageLimit_def called_def Let_def)
  from text_success [OF s2(3) _ assms(3) c2, of t3] s2 assms(2)
  have s3: "gv_usage ?s3 = Some \<lparr>date = today e, count = 3\<rparr>" "user ?s3 = user s"
    by simp_all
  show ?thesis
    using s3 assms(2) by (simp add: checkUsageLimit_def called_def Let_def)
qed

text \<open>
  A successful cloud request of a user who is not premium, in each mode (a voice turn from
  the start of the recording), keeps the user, the connectivity and the premium prompt as
  they were, adds one item to the history and stores the ledger raised by one; and a ledger
  dated another day passes the check.
\<close>

lemma check_passes:
  "fst (checkUsageLimit e s) \<Longrightarrow> checkUsageLimit e s = (True, called CheckUsageLimit s)"
  using checkUsageLimit_snd [of e s] by (cases "checkUsageLimit e s") simp

lemma text_cloud_success:
  assumes "isOnline s" and "\<not> user_isPremium (user s)" and "generate e = Inr r"
      and "fst (checkUsageLimit e s)"
  shows "user (handleTextTranslate e inputText s) = user s
       \<and> isOnline (handleTextTranslate e inputText s) = isOnline s
       \<and> isRecording (handleTextTranslate e inputText s) = isRecording s
       \<and> showPremiumModal (handleTextTranslate e inputText s) = showPremiumModal s
       \<and> translationResult (handleTextTranslate e inputText s) = Some r
       \<and> length (history (handleTextTranslate e inputText s)) = min 50 (Suc (length (history s)))
       \<and> gv_usage (handleTextTranslate e inputText s) = bump e (gv_usage s)"
  using assms(1-3)
  by (simp add: handleTextTranslate_def check_passes [OF assms(4)] handler_defs Let_def bump_def min.commute
           split: option.splits)

lemma image_cloud_success:
  assumes "isOnline s" and "\<not> user_isPremium (user s)" and "generate e = Inr r"
      and "fst (checkUsageLimit e s)"
  shows "user (handleImageTranslate e base64Image mimeType s) = user s
       \<and> isOnline (handleImageTranslate e base64Image mimeType s) = isOnline s
       \<and> isRecording (handleImageTranslate e base64Image mimeType s) = isRecording s
       \<and> showPremiumModal (handleImageTranslate e base64Image mimeType s) = showPremiumModal s
       \<and> translationResult (handleImageTranslate e base64Image mimeType s) = Some r
       \<and> length (history (handleImageTranslate e base64Image mimeType s)) =
           min 50 (Suc (length (history s)))
       \<and> gv_usage (handleImageTranslate e base64Image mimeType s) = bump e (gv_usage s)"
  using assms(1-3)
  by (simp add: handleImageTranslate_def check_passes [OF assms(4)] handler_defs Let_def bump_def min.commute
           split: option.splits)

lemma voice_cloud_success:
  assumes "isOnline s" and "\<not> user_isPremium (user s)" and "generate e = Inr r"
      and "fst (checkUsageLimit e s)" and "microphone e = None"
  shows "user (voiceTurn e (Inr b) blobType s) = user s
       \<and> isOnline (voiceTurn e (Inr b) blobType s) = isOnline s
       \<and> isRecording (voiceTurn e (Inr b) blobType s) = False
       \<and> showPremiumModal (voiceTurn e (Inr b) blobType s) = showPremiumModal s
       \<and> translationResult (voiceTurn e (Inr b) blobType s) = Some r
       \<and> length (history (voiceTurn e (Inr b) blobType s)) = min 50 (Suc (length (history s)))
       \<and> gv_usage (voiceTurn e (Inr b) blobType s) = bump e (gv_usage s)"
  using assms(1-3,5)
  by (simp add: voiceTurn_def startRecording_def stopRecording_def processAudio_def
           check_passes [OF assms(4)] handler_defs Let_def bump_def min.commute
           split: option.splits)

lemma stale_check_passes:
  assumes "\<not> user_isPremium (user s)" and "gv_usage s = Some u" and "date u \<noteq> today e"
  shows "fst (checkUsageLimit e s)"
  using assms by (simp add: checkUsageLimit_def called_def Let_def)

text \<open>
  C1. The fourth cloud request within one day is not blocked when the stored ledger is
  dated another day. On 2024-01-02, for a user who is not premium and a stored ledger dated
  2024-01-01 with count 3, a voice turn, a text request and an image request succeed, the
  quota check then allows the fourth request, and the fourth, a text request, is translated
  as well: no premium prompt, four items in the history, and the ledger still dated
  2024-01-01, now with count 7.
\<close>

theorem fourth_request_stale_ledger:
  "today env0 = asc ''2024-01-02''
   \<and> \<not> user_isPremium (user app0)
   \<and> (let s0 = app0\<lparr>gv_usage := Some \<lparr>date = asc ''2024-01-01'', count = 3\<rparr>\<rparr>;
           s1 = voiceTurn env0 (Inr (asc ''AAAA'')) (asc ''audio/webm'') s0;
           s2 = handleTextTranslate env0 (asc ''hello'') s1;
           s3 = handleImageTranslate env0 (asc ''AAAA'') (asc ''image/png'') s2;
           s4 = handleTextTranslate env0 (asc ''hello'') s3
       in fst (checkUsageLimit env0 s3)
          \<and> \<not> showPremiumModal s4
          \<and> translationResult s4 = Some sample_result
          \<and> length (history s4) = 4
          \<and> gv_usage s4 = Some \<lparr>date = asc ''2024-01-01'', count = 7\<rparr>)"
proof -
  let ?s0 = "app0\<lparr>gv_usage := Some \<lparr>date = asc ''2024-01-01'', count = 3\<rparr>\<rparr>"
  let ?s1 = "voiceTurn env0 (Inr (asc ''AAAA'')) (asc ''audio/webm'') ?s0"
  let ?s2 = "handleTextTranslate env0 (asc ''hello'') ?s1"
  let ?s3 = "handleImageTranslate env0 (asc ''AAAA'') (asc ''image/png'') ?s2"
  let ?s4 = "handleTextTranslate env0 (asc ''hello'') ?s3"
  have day: "today env0 = asc ''2024-01-02''" by (simp add: env0_def)
  have stale: "asc ''2024-01-01'' \<noteq> today env0" by (simp add: env0_def asc_def)
  have mic: "microphone env0 = None" by (simp add: env0_def)
  have g: "generate env0 = Inr sample_result"
    by (simp add: generate_def env0_def falsy_def asc_def)
  have np: "\<not> user_isPremium (user app0)" by (simp add: app0_def user_isPremium_def)
  have s0: "isOnline ?s0" "user ?s0 = user app0" "\<not> showPremiumModal ?s0"
           "length (history ?s0) = 0"
           "gv_usage ?s0 = Some \<lparr>date = asc ''2024-01-01'', count = 3\<rparr>"
    by (simp_all add: app0_def)
  have c0: "fst (checkUsageLimit env0 ?s0)"
    by (rule stale_check_passes [OF _ s0(5)]) (simp_all add: s0 np stale)
  from voice_cloud_success [OF s0(1) _ g c0 mic, of "asc ''AAAA''" "asc ''audio/webm''"] s0 np
  have s1: "isOnline ?s1" "user ?s1 = user app0" "\<not> showPremiumModal ?s1"
           "length (history ?s1) = 1"
           "gv_usage ?s1 = Some \<lparr>date = asc ''2024-01-01'', count = 4\<rparr>"
    by (simp_all add: bump_def)
  have c1: "fst (checkUsageLimit env0 ?s1)"
    by (rule stale_check_passes [OF _ s1(5)]) (simp_all add: s1 np stale)
  from text_cloud_success [OF s1(1) _ g c1, of "asc ''hello''"] s1 np
  have s2: "isOnline ?s2" "user ?s2 = user app0" "\<not> showPremiumModal ?s2"
           "length (history ?s2) = 2"
           "gv_usage ?s2 = Some \<lparr>date = asc ''2024-01-01'', count = 5\<rparr>"
    by (simp_all add: bump_def)
  have c2: "fst (checkUsageLimit env0 ?s2)"
    by (rule stale_check_passes [OF _ s2(5)]) (simp_all add: s2 np stale)
  from image_cloud_success [OF s2(1) _ g c2, of "asc ''AAAA''" "asc ''image/png''"] s2 np
  have s3: "isOnline ?s3" "user ?s3 = user app0" "\<not> showPremiumModal ?s3"
           "length (history ?s3) = 3"
           "gv_usage ?s3 = Some \<lparr>date = asc ''2024-01-01'', count = 6\<rparr>"
    by (simp_all add: bump_def)
  have c3: "fst (checkUsageLimit env0 ?s3)"
    by (rule stale_check_passes [OF _ s3(5)]) (simp_all add: s3 np stale)
  from text_cloud_success [OF s3(1) _ g c3, of "asc ''hello''"] s3 np
  have s4: "\<not> showPremiumModal ?s4" "translationResult ?s4 = Some sample_result"
           "length (history ?s4) = 4"
           "gv_usage ?s4 = Some \<lparr>date = asc ''2024-01-01'', count = 7\<rparr>"
    by (simp_all add: bump_def)
  from day np c3 s4 show ?thesis unfolding Let_def by blast
qed

section \<open>Voice requests\<close>

text \<open>
  The offline resolver on the phrase \<open>Help me\<close>, and what a voice request does on its
  offline path (premium user, pack downloaded) and on its cloud path when the call succeeds.
\<close>

lemma help_me_offline:
  "translateOffline uni (asc ''Help me'') lang =
     Inr \<lparr>original_text = asc ''Help me'', detected_language = asc ''en'',
          translated_text = (case dict_lookup (asc ''help me'') lang of
                               Some t \<Rightarrow> t | None \<Rightarrow> asc ''[Offline: Help me]''),
          phonetic = Some []\<rparr>"
  by (cases lang)
     (simp_all add: translateOffline_def cleanText_def toLowerCase_def ascii_lower_def trim_def
        is_space_def strip_punct_def OFFLINE_DICTIONARY_def asc_def falsy_def offline_result_def
        dict_lookup_def)

lemma processAudio_offline:
  assumes "\<not> isOnline s" and "user_isPremium (user s)"
      and "isDownloaded (user s) (targetLangCode s)"
      and "translateOffline (lower_uni e) (asc ''Help me'') (targetLangCode s) = Inr r"
  shows "trace (processAudio e base64 blobType s) =
           trace s @ TranslateOffline (asc ''Help me'') (targetLangCode s)
             # (if mode s = voice_to_voice
                then [SpeakText (translated_text r) (ttsLocale (targetLang e s))] else [])"
    and "translationResult (processAudio e base64 blobType s) = Some r"
    and "history (processAudio e base64 blobType s) = take 50 (newItem e r s # history s)"
    and "gv_usage (processAudio e base64 blobType s) = gv_usage s"
  using assms
  by (simp_all add: processAudio_def handler_defs Let_def targetLang_def motherLang_def newItem_def)

lemma processAudio_cloud:
  assumes "isOnline s" and "generate e = Inr r"
  shows "trace (processAudio e (Inr b) blobType s) =
           trace s @ TranslateAudio b (LanguageOption.name (targetLang e s))
                        (LanguageOption.name (motherLang e s)) blobType
             # (if mode s = voice_to_voice
                then [SpeakText (translated_text r)
                        (ttsLocale (if detected_language r = code_str (motherLangCode s)
                                    then targetLang e s else motherLang e s))]
                else [])"
  using assms
  by (simp add: processAudio_def handler_defs Let_def targetLang_def motherLang_def)

text \<open>
  C9, as amended. In the mode \<open>voice-to-voice\<close>, a successful cloud translation is spoken
  with the locale of the target language when the detected language equals the
  mother-language code and with the locale of the mother language otherwise; a successful
  offline translation is always spoken with the locale of the target language.
\<close>

theorem voice_playback_locale:
  assumes "mode s = voice_to_voice"
  shows "(isOnline s \<and> generate e = Inr r \<longrightarrow>
            trace (processAudio e (Inr b) blobType s) =
              trace s @ [TranslateAudio b (LanguageOption.name (targetLang e s))
                           (LanguageOption.name (motherLang e s)) blobType,
                         SpeakText (translated_text r)
                           (ttsLocale (if detected_language r = code_str (motherLangCode s)
                                       then targetLang e s else motherLang e s))])
       \<and> (\<not> isOnline s \<and> user_isPremium (user s) \<and> isDownloaded (user s) (targetLangCode s) \<longrightarrow>
            trace (processAudio e base64 blobType s) =
              trace s @ [TranslateOffline (asc ''Help me'') (targetLangCode s),
                         SpeakText (case dict_lookup (asc ''help me'') (targetLangCode s) of
                                      Some t \<Rightarrow> t | None \<Rightarrow> asc ''[Offline: Help me]'')
                           (ttsLocale (targetLang e s))])"
proof -
  have cloud: "trace (processAudio e (Inr b) blobType s) =
              trace s @ [TranslateAudio b (LanguageOption.name (targetLang e s))
                           (LanguageOption.name (motherLang e s)) blobType,
                         SpeakText (translated_text r)
                           (ttsLocale (if detected_language r = code_str (motherLangCode s)
                                       then targetLang e s else motherLang e s))]"
    if "isOnline s" and "generate e = Inr r"
    using processAudio_cloud [OF that, of b blobType] assms by simp
  have offline: "trace (processAudio e base64 blobType s) =
              trace s @ [TranslateOffline (asc ''Help me'') (targetLangCode s),
                         SpeakText (case dict_lookup (asc ''help me'') (targetLangCode s) of
                                      Some t \<Rightarrow> t | None \<Rightarrow> asc ''[Offline: Help me]'')
                           (ttsLocale (targetLang e s))]"
    if "\<not> isOnline s" and "user_isPremium (user s)" and "isDownloaded (user s) (targetLangCode s)"
    using processAudio_offline(1) [OF that help_me_offline, of e base64 blobType] assms by simp
  from cloud offline show ?thesis by blast
qed

text \<open>
  With mother language \<open>en\<close> and target \<open>id\<close>: a cloud result detected as \<open>id\<close> is
  spoken with the locale of \<open>en\<close>, and the offline result with the locale of \<open>id\<close>.
\<close>

theorem voice_playback_locale_witness:
  "mode app0 = voice_to_voice \<and> isOnline app0 \<and> generate env0 = Inr sample_result
   \<and> detected_language sample_result \<noteq> code_str (motherLangCode app0)
   \<and> trace (processAudio env0 (Inr (asc ''AAAA'')) (asc ''audio/webm'') app0) =
       [TranslateAudio (asc ''AAAA'') (asc ''lang-id'') (asc ''lang-en'') (asc ''audio/webm''),
        SpeakText (asc ''good morning'') (asc ''en-XX'')]
   \<and> trace (processAudio env0 (Inr (asc ''AAAA'')) (asc ''audio/webm'')
        (app0\<lparr>isOnline := False, user := Some (premium_user [L_id])\<rparr>)) =
       [TranslateOffline (asc ''Help me'') L_id, SpeakText (asc ''tolong saya'') (asc ''id-XX'')]"
proof -
  let ?s = "app0\<lparr>isOnline := False, user := Some (premium_user [L_id])\<rparr>"
  have m: "mode app0 = voice_to_voice" by (simp add: app0_def)
  have m': "mode ?s = voice_to_voice" by (simp add: app0_def)
  have on: "isOnline app0" by (simp add: app0_def)
  have off: "\<not> isOnline ?s" by simp
  have g: "generate env0 = Inr sample_result"
    by (simp add: generate_def env0_def falsy_def asc_def)
  have d: "detected_language sample_result \<noteq> code_str (motherLangCode app0)"
    by (simp add: sample_result_def app0_def asc_def)
  have p: "user_isPremium (user ?s)" by (simp add: user_isPremium_def premium_user_def)
  have q: "isDownloaded (user ?s) (targetLangCode ?s)"
    by (simp add: isDownloaded_def premium_user_def app0_def)
  from voice_playback_locale [OF m, of env0 sample_result "asc ''AAAA''" "asc ''audio/webm''"] on g
  have "trace (processAudio env0 (Inr (asc ''AAAA'')) (asc ''audio/webm'') app0) =
          trace app0 @ [TranslateAudio (asc ''AAAA'') (LanguageOption.name (targetLang env0 app0))
                           (LanguageOption.name (motherLang env0 app0)) (asc ''audio/webm''),
                        SpeakText (translated_text sample_result)
                           (ttsLocale (if detected_language sample_result = code_str (motherLangCode app0)
                                       then targetLang env0 app0 else motherLang env0 app0))]"
    by blast
  moreover have "trace app0 @ [TranslateAudio (asc ''AAAA'') (LanguageOption.name (targetLang env0 app0))
                           (LanguageOption.name (motherLang env0 app0)) (asc ''audio/webm''),
                        SpeakText (translated_text sample_result)
                           (ttsLocale (if detected_language sample_result = code_str (motherLangCode app0)
                                       then targetLang env0 app0 else motherLang env0 app0))] =
       [TranslateAudio (asc ''AAAA'') (asc ''lang-id'') (asc ''lang-en'') (asc ''audio/webm''),
        SpeakText (asc ''good morning'') (asc ''en-XX'')]"
    by (simp add: app0_def env0_def sample_result_def sample_languages_def targetLang_def
                  motherLang_def asc_def)
  ultimately have A: "trace (processAudio env0 (Inr (asc ''AAAA'')) (asc ''audio/webm'') app0) =
       [TranslateAudio (asc ''AAAA'') (asc ''lang-id'') (asc ''lang-en'') (asc ''audio/webm''),
        SpeakText (asc ''good morning'') (asc ''en-XX'')]"
    by (rule trans)
  from voice_playback_locale [OF m', of env0 sample_result "asc ''AAAA''" "asc ''audio/webm''"
                                "Inr (asc ''AAAA'')"] off p q
  have "trace (processAudio env0 (Inr (asc ''AAAA'')) (asc ''audio/webm'') ?s) =
          trace ?s @ [TranslateOffline (asc ''Help me'') (targetLangCode ?s),
                      SpeakText (case dict_lookup (asc ''help me'') (targetLangCode ?s) of
                                   Some t \<Rightarrow> t | None \<Rightarrow> asc ''[Offline: Help me]'')
                        (ttsLocale (targetLang env0 ?s))]"
    by blast
  moreover have "trace ?s @ [TranslateOffline (asc ''Help me'') (targetLangCode ?s),
                      SpeakText (case dict_lookup (asc ''help me'') (targetLangCode ?s) of
                                   Some t \<Rightarrow> t | None \<Rightarrow> asc ''[Offline: Help me]'')
                        (ttsLocale (targetLang env0 ?s))] =
       [TranslateOffline (asc ''Help me'') L_id, SpeakText (asc ''tolong saya'') (asc ''id-XX'')]"
    by (simp add: app0_def env0_def sample_languages_def targetLang_def dict_lookup_def
                  OFFLINE_DICTIONARY_def asc_def)
  ultimately have B: "trace (processAudio env0 (Inr (asc ''AAAA'')) (asc ''audio/webm'') ?s) =
       [TranslateOffline (asc ''Help me'') L_id, SpeakText (asc ''tolong saya'') (asc ''id-XX'')]"
    by (rule trans)
  from m on g d A B show ?thesis by blast
qed

text \<open>
  C9 as stated fails on the offline path: with mother language \<open>id\<close> and target \<open>es\<close>
  the result's detected language is \<open>en\<close>, which is not the mother-language code, and the
  playback uses the locale of the target language, not that of the mother language.
\<close>

theorem offline_voice_playback_counterexample:
  "mode (app0\<lparr>isOnline := False, user := Some (premium_user [L_es]),
               motherLangCode := L_id, targetLangCode := L_es\<rparr>) = voice_to_voice
   \<and> map_option detected_language
        (translationResult (processAudio env0 (Inr (asc ''AAAA'')) (asc ''audio/webm'')
           (app0\<lparr>isOnline := False, user := Some (premium_user [L_es]),
                  motherLangCode := L_id, targetLangCode := L_es\<rparr>))) = Some (asc ''en'')
   \<and> asc ''en'' \<noteq> code_str L_id
   \<and> trace (processAudio env0 (Inr (asc ''AAAA'')) (asc ''audio/webm'')
           (app0\<lparr>isOnline := False, user := Some (premium_user [L_es]),
                  motherLangCode := L_id, targetLangCode := L_es\<rparr>)) =
       [TranslateOffline (asc ''Help me'') L_es,
        SpeakText (asc ''ay'' @ [250] @ asc ''dame'') (ttsLocale (sample_languages L_es))]
   \<and> ttsLocale (sample_languages L_es) \<noteq> ttsLocale (sample_languages L_id)"
proof -
  let ?s = "app0\<lparr>isOnline := False, user := Some (premium_user [L_es]),
               motherLangCode := L_id, targetLangCode := L_es\<rparr>"
  have a: "\<not> isOnline ?s" by simp
  have b: "user_isPremium (user ?s)" by (simp add: user_isPremium_def premium_user_def)
  have c: "isDownloaded (user ?s) (targetLangCode ?s)"
    by (simp add: isDownloaded_def premium_user_def)
  have m: "mode ?s = voice_to_voice" by (simp add: app0_def)
  have l: "dict_lookup (asc ''help me'') L_es = Some (asc ''ay'' @ [250] @ asc ''dame'')"
    by (simp add: dict_lookup_def OFFLINE_DICTIONARY_def asc_def)
  have t: "targetLangCode ?s = L_es" by simp
  note r = help_me_offline [of "lower_uni env0" "targetLangCode ?s"]
  have "trace (processAudio env0 (Inr (asc ''AAAA'')) (asc ''audio/webm'') ?s) =
       [TranslateOffline (asc ''Help me'') L_es,
        SpeakText (asc ''ay'' @ [250] @ asc ''dame'') (ttsLocale (sample_languages L_es))]"
    using processAudio_offline(1) [OF a b c r, of "Inr (asc ''AAAA'')" "asc ''audio/webm''"] m
    by (simp add: l) (simp add: app0_def env0_def targetLang_def)
  moreover have "map_option detected_language
        (translationResult (processAudio env0 (Inr (asc ''AAAA'')) (asc ''audio/webm'') ?s))
        = Some (asc ''en'')"
    using processAudio_offline(2) [OF a b c r, of "Inr (asc ''AAAA'')" "asc ''audio/webm''"]
    by simp
  moreover have "asc ''en'' \<noteq> code_str L_id" by (simp add: asc_def)
  moreover have "ttsLocale (sample_languages L_es) \<noteq> ttsLocale (sample_languages L_id)"
    by (simp add: sample_languages_def asc_def)
  ultimately show ?thesis using m by simp
qed

text \<open>
  C10, as amended. Offline, for a premium user with the pack of the target language, a voice
  request does the same whatever the recording: it calls the offline resolver once, with the
  text \<open>Help me\<close> and the target code, leaves the usage ledger alone, and its result is
  the dictionary's translation of \<open>help me\<close> for the target code when there is one, and
  the marked text \<open>[Offline: Help me]\<close> when there is none.
\<close>

theorem offline_voice_fixed_phrase:
  assumes "\<not> isOnline s" and "user_isPremium (user s)"
      and "isDownloaded (user s) (targetLangCode s)"
  shows "processAudio e base64 blobType s = processAudio e base64' blobType' s
       \<and> trace (processAudio e base64 blobType s) =
           trace s @ TranslateOffline (asc ''Help me'') (targetLangCode s)
             # (if mode s = voice_to_voice
                then [SpeakText (case dict_lookup (asc ''help me'') (targetLangCode s) of
                                   Some t \<Rightarrow> t | None \<Rightarrow> asc ''[Offline: Help me]'')
                        (ttsLocale (targetLang e s))]
                else [])
       \<and> translationResult (processAudio e base64 blobType s) =
           Some \<lparr>original_text = asc ''Help me'', detected_language = asc ''en'',
                 translated_text = (case dict_lookup (asc ''help me'') (targetLangCode s) of
                                      Some t \<Rightarrow> t | None \<Rightarrow> asc ''[Offline: Help me]''),
                 phonetic = Some []\<rparr>
       \<and> gv_usage (processAudio e base64 blobType s) = gv_usage s"
proof -
  have same: "processAudio e base64 blobType s = processAudio e base64' blobType' s"
    using assms by (simp add: processAudio_def)
  note r = help_me_offline [of "lower_uni e" "targetLangCode s"]
  from same processAudio_offline(1) [OF assms r, of base64 blobType]
       processAudio_offline(2) [OF assms r, of base64 blobType]
       processAudio_offline(4) [OF assms r, of base64 blobType]
  show ?thesis by simp
qed

text \<open>
  For the target \<open>id\<close> the result is \<open>tolong saya\<close>, the same for two different
  recordings.
\<close>

theorem offline_voice_fixed_phrase_witness:
  "\<not> isOnline (app0\<lparr>isOnline := False, user := Some (premium_user [L_id])\<rparr>)
   \<and> translationResult (processAudio env0 (Inr (asc ''AAAA'')) (asc ''audio/webm'')
           (app0\<lparr>isOnline := False, user := Some (premium_user [L_id])\<rparr>)) =
       Some \<lparr>original_text = asc ''Help me'', detected_language = asc ''en'',
             translated_text = asc ''tolong saya'', phonetic = Some []\<rparr>
   \<and> processAudio env0 (Inr (asc ''AAAA'')) (asc ''audio/webm'')
           (app0\<lparr>isOnline := False, user := Some (premium_user [L_id])\<rparr>) =
       processAudio env0 (Inr (asc ''BBBB'')) (asc ''audio/ogg'')
           (app0\<lparr>isOnline := False, user := Some (premium_user [L_id])\<rparr>)"
proof -
  let ?s = "app0\<lparr>isOnline := False, user := Some (premium_user [L_id])\<rparr>"
  have a: "\<not> isOnline ?s" by simp
  have b: "user_isPremium (user ?s)" by (simp add: user_isPremium_def premium_user_def)
  have c: "isDownloaded (user ?s) (targetLangCode ?s)"
    by (simp add: isDownloaded_def premium_user_def app0_def)
  have l: "(case dict_lookup (asc ''help me'') (targetLangCode ?s) of
              Some t \<Rightarrow> t | None \<Rightarrow> asc ''[Offline: Help me]'') = asc ''tolong saya''"
    by (simp add: dict_lookup_def OFFLINE_DICTIONARY_def asc_def app0_def)
  note T = offline_voice_fixed_phrase [OF a b c, of env0 "Inr (asc ''AAAA'')" "asc ''audio/webm''"
                                     "Inr (asc ''BBBB'')" "asc ''audio/ogg''"]
  from T have same: "processAudio env0 (Inr (asc ''AAAA'')) (asc ''audio/webm'') ?s =
                     processAudio env0 (Inr (asc ''BBBB'')) (asc ''audio/ogg'') ?s"
    by (rule conjunct1)
  from T have "translationResult (processAudio env0 (Inr (asc ''AAAA'')) (asc ''audio/webm'') ?s) =
           Some \<lparr>original_text = asc ''Help me'', detected_language = asc ''en'',
                 translated_text = (case dict_lookup (asc ''help me'') (targetLangCode ?s) of
                                      Some t \<Rightarrow> t | None \<Rightarrow> asc ''[Offline: Help me]''),
                 phonetic = Some []\<rparr>"
    by blast
  then have res: "translationResult (processAudio env0 (Inr (asc ''AAAA'')) (asc ''audio/webm'') ?s) =
           Some \<lparr>original_text = asc ''Help me'', detected_language = asc ''en'',
                 translated_text = asc ''tolong saya'', phonetic = Some []\<rparr>"
    by (simp only: l)
  from a res same show ?thesis by blast
qed

text \<open>
  C10 as stated fails for a target code without dictionary entries: for \<open>ko\<close> the result
  is the marked text, and the dictionary has no translation of \<open>help me\<close> for \<open>ko\<close>.
\<close>

theorem offline_voice_no_entry_counterexample:
  "\<not> isOnline (app0\<lparr>isOnline := False, user := Some (premium_user [L_ko]), targetLangCode := L_ko\<rparr>)
   \<and> user_isPremium (user (app0\<lparr>isOnline := False, user := Some (premium_user [L_ko]),
                                 targetLangCode := L_ko\<rparr>))
   \<and> isDownloaded (user (app0\<lparr>isOnline := False, user := Some (premium_user [L_ko]),
                                targetLangCode := L_ko\<rparr>)) L_ko
   \<and> map_option translated_text
        (translationResult (processAudio env0 (Inr (asc ''AAAA'')) (asc ''audio/webm'')
           (app0\<lparr>isOnline := False, user := Some (premium_user [L_ko]), targetLangCode := L_ko\<rparr>))) =
       Some (asc ''[Offline: Help me]'')
   \<and> dict_lookup (asc ''help me'') L_ko = None"
proof -
  let ?s = "app0\<lparr>isOnline := False, user := Some (premium_user [L_ko]), targetLangCode := L_ko\<rparr>"
  have a: "\<not> isOnline ?s" by simp
  have b: "user_isPremium (user ?s)" by (simp add: user_isPremium_def premium_user_def)
  have c: "isDownloaded (user ?s) (targetLangCode ?s)"
    by (simp add: isDownloaded_def premium_user_def)
  have l: "dict_lookup (asc ''help me'') L_ko = None"
    by (simp add: dict_lookup_def OFFLINE_DICTIONARY_def asc_def)
  note r = help_me_offline [of "lower_uni env0" "targetLangCode ?s"]
  from processAudio_offline(2) [OF a b c r, of "Inr (asc ''AAAA'')" "asc ''audio/webm''"] a b c l
  show ?thesis by simp
qed

end
